theory Spec2Isabelle
  imports Complex_Main
begin

section \<open>Python values used by \<open>model.py\<close>\<close>

subsection \<open>Exceptions\<close>

text \<open>
  \<open>model.py\<close> has no \<open>raise\<close> of its own and catches nothing: every exception comes out
  of a library call and ends the run. The model returns it as a value (\<open>Inl\<close>).
\<close>

datatype error =
    OverflowError
  | ValueError
  | KeyError string
  | TypeError
  | FileNotFoundError
  | NotADirectoryError
  | IsADirectoryError
  | UnpicklingError
  | OutOfBoundsDatetime
  | DownloadError string

subsection \<open>Decimal formatting, as \<open>%02d\<close> and \<open>%04d\<close> do\<close>

definition digit_char :: "nat \<Rightarrow> char" where
  "digit_char n = ''0123456789'' ! n"

fun dec :: "nat \<Rightarrow> string" where
  "dec n = (if n < 10 then [digit_char n] else dec (n div 10) @ [digit_char (n mod 10)])"

declare dec.simps [simp del]

definition zfill :: "nat \<Rightarrow> string \<Rightarrow> string" where
  "zfill w s = replicate (w - length s) CHR ''0'' @ s"

subsection \<open>\<open>datetime.date\<close> and \<open>strftime\<close>\<close>

text \<open>
  A date is its year, month and day, as \<open>datetime.date\<close> stores it. The \<open>ds\<close> values of a
  forecast are pandas timestamps at midnight; the two formats the program uses print the
  calendar day only, so the time of day is left out.
\<close>

datatype date = Date (year: nat) (month: nat) (day: nat)

text \<open>
  \<open>strftime\<close> for the directives the program uses, as the C library of Linux prints them
  for CPython: \<open>%m\<close> and \<open>%d\<close> are the month and the day on two digits, \<open>%Y\<close> is the
  year in decimal with no padding (\<open>2024\<close>, but \<open>999\<close> and \<open>50\<close>); any other character
  is copied.
\<close>

definition directive :: "date \<Rightarrow> char \<Rightarrow> string" where
  "directive dt f =
     (if f = CHR ''Y'' then dec (year dt)
      else if f = CHR ''m'' then zfill 2 (dec (month dt))
      else if f = CHR ''d'' then zfill 2 (dec (day dt))
      else [CHR ''%'', f])"

fun strftime :: "date \<Rightarrow> string \<Rightarrow> string" where
  "strftime dt [] = []"
| "strftime dt [c] = [c]"
| "strftime dt (c # f # cs) =
     (if c = CHR ''%'' then directive dt f @ strftime dt cs else c # strftime dt (f # cs))"

subsection \<open>Dictionaries with insertion order\<close>

text \<open>
  A Python \<open>dict\<close> keeps its keys in insertion order, and an assignment to a key that is
  already there replaces the value where the key stands. The model is an association list
  with at most one entry per key.
\<close>

type_synonym ('k, 'v) dict = "('k \<times> 'v) list"

fun dict_set :: "'k \<Rightarrow> 'v \<Rightarrow> ('k, 'v) dict \<Rightarrow> ('k, 'v) dict" where
  "dict_set k v [] = [(k, v)]"
| "dict_set k v ((k', v') # d) =
     (if k = k' then (k, v) # d else (k', v') # dict_set k v d)"

definition dict_get :: "('k, 'v) dict \<Rightarrow> 'k \<Rightarrow> 'v option" where
  "dict_get d k = map_of d k"

definition dict_keys :: "('k, 'v) dict \<Rightarrow> 'k list" where
  "dict_keys d = map fst d"

section \<open>The forecast records and \<open>convert\<close>\<close>

text \<open>
  One row of \<open>forecast.to_dict("records")\<close>: the date \<open>ds\<close>, the \<open>trend\<close>, and the other
  numeric columns of the forecast by name. The floats are never computed with, only
  carried, so they are reals.
\<close>

record forecast_record =
  ds :: date
  trend :: real
  columns :: "(string \<times> real) list"

text \<open>
  What \<open>predict\<close> returns: a list of records or, on the path with no model file,
  \<open>False\<close>. \<open>PyNone\<close> is the value its docstring and its return type announce there.
\<close>

datatype pyval = PyNone | PyBool bool | PyList "forecast_record list"

text \<open>The loop of \<open>convert\<close> (lines 98 to 100), with \<open>output\<close> as accumulator.\<close>

fun convert_loop :: "forecast_record list \<Rightarrow> (string, real) dict \<Rightarrow> (string, real) dict" where
  "convert_loop [] output = output"
| "convert_loop (data # rest) output =
     convert_loop rest (dict_set (strftime (ds data) ''%m/%d/%Y'') (trend data) output)"

text \<open>
  \<open>convert\<close> iterates over its argument: \<open>for data in False\<close> and \<open>for data in None\<close>
  raise \<open>TypeError\<close>.
\<close>

fun convert :: "pyval \<Rightarrow> error + (string, real) dict" where
  "convert (PyList prediction_list) = Inr (convert_loop prediction_list [])"
| "convert (PyBool b) = Inl TypeError"
| "convert PyNone = Inl TypeError"

text \<open>The key and the entry that one record contributes to the result of \<open>convert\<close>.\<close>

definition date_key :: "forecast_record \<Rightarrow> string" where
  "date_key r = strftime (ds r) ''%m/%d/%Y''"

definition entry :: "forecast_record \<Rightarrow> string \<times> real" where
  "entry r = (date_key r, trend r)"

section \<open>The calendar of \<open>datetime\<close>\<close>

text \<open>
  \<open>TODAY + datetime.timedelta(days=days)\<close> goes through the proleptic Gregorian ordinal
  of the date (day 1 is 0001-01-01), with the functions of CPython's \<open>datetime\<close>:
  \<open>_is_leap\<close>, \<open>_days_before_year\<close>, \<open>_days_in_month\<close>, \<open>_days_before_month\<close>,
  \<open>_ymd2ord\<close> and \<open>_ord2ymd\<close>. Ordinals and day counts are Python integers. The two
  tables are read at the months 1 to 12 only: a \<open>date\<close> holds no other month, and
  \<open>_ord2ymd\<close> computes no other (lemma \<open>month_day_correct\<close> below).
\<close>

definition is_leap :: "int \<Rightarrow> bool" where
  "is_leap y = (y mod 4 = 0 \<and> (0 < y mod 100 \<or> y mod 400 = 0))"

definition days_before_year :: "int \<Rightarrow> int" where
  "days_before_year y = (y - 1) * 365 + (y - 1) div 4 - (y - 1) div 100 + (y - 1) div 400"

definition DAYS_IN_MONTH :: "int \<Rightarrow> int" where
  "DAYS_IN_MONTH m = [-1, 31, 28, 31, 30, 31, 30, 31, 31, 30, 31, 30, 31] ! nat m"

definition DAYS_BEFORE_MONTH :: "int \<Rightarrow> int" where
  "DAYS_BEFORE_MONTH m = [-1, 0, 31, 59, 90, 120, 151, 181, 212, 243, 273, 304, 334] ! nat m"

definition days_in_month :: "int \<Rightarrow> int \<Rightarrow> int" where
  "days_in_month y m = (if m = 2 \<and> is_leap y then 29 else DAYS_IN_MONTH m)"

definition days_before_month :: "int \<Rightarrow> int \<Rightarrow> int" where
  "days_before_month y m = DAYS_BEFORE_MONTH m + (if 2 < m \<and> is_leap y then 1 else 0)"

definition ymd2ord :: "int \<Rightarrow> int \<Rightarrow> int \<Rightarrow> int" where
  "ymd2ord y m d = days_before_year y + days_before_month y m + d"

definition ord2ymd :: "int \<Rightarrow> int \<times> int \<times> int" where
  "ord2ymd n0 =
     (let n = n0 - 1;
          n400 = n div 146097; n = n mod 146097;
          year = n400 * 400 + 1;
          n100 = n div 36524; n = n mod 36524;
          n4 = n div 1461; n = n mod 1461;
          n1 = n div 365; n = n mod 365;
          year = year + n100 * 100 + n4 * 4 + n1
      in if n1 = 4 \<or> n100 = 4 then (year - 1, 12, 31)
         else
           let leapyear = (n1 = 3 \<and> (n4 \<noteq> 24 \<or> n100 = 3));
               month = (n + 50) div 32;
               preceding = DAYS_BEFORE_MONTH month + (if 2 < month \<and> leapyear then 1 else 0)
           in if n < preceding
              then (let month = month - 1;
                        preceding = preceding
                          - (DAYS_IN_MONTH month + (if month = 2 \<and> leapyear then 1 else 0))
                    in (year, month, n - preceding + 1))
              else (year, month, n - preceding + 1))"

definition MAXORDINAL :: int where
  "MAXORDINAL = 3652059"

definition toordinal :: "date \<Rightarrow> int" where
  "toordinal dt = ymd2ord (int (year dt)) (int (month dt)) (int (day dt))"

definition fromordinal :: "int \<Rightarrow> date" where
  "fromordinal n = (case ord2ymd n of (y, m, d) \<Rightarrow> Date (nat y) (nat m) (nat d))"

text \<open>
  The dates \<open>datetime.date\<close> can hold: its constructor refuses any other triple, so
  \<open>TODAY\<close> is one of them.
\<close>

definition valid_date :: "date \<Rightarrow> bool" where
  "valid_date dt =
     (1 \<le> year dt \<and> year dt \<le> 9999 \<and> 1 \<le> month dt \<and> month dt \<le> 12 \<and> 1 \<le> day dt
      \<and> int (day dt) \<le> days_in_month (int (year dt)) (int (month dt)))"

text \<open>
  \<open>date + timedelta(days=days)\<close>: the \<open>timedelta\<close> constructor raises \<open>OverflowError\<close>
  beyond 999999999 days, the addition when the ordinal leaves \<open>1 .. MAXORDINAL\<close>.
\<close>

definition date_add :: "date \<Rightarrow> int \<Rightarrow> error + date" where
  "date_add dt days =
     (if 999999999 < \<bar>days\<bar> then Inl OverflowError
      else let o' = toordinal dt + days
           in if 0 < o' \<and> o' \<le> MAXORDINAL then Inr (fromordinal o') else Inl OverflowError)"

section \<open>Paths and files\<close>

subsection \<open>\<open>pathlib\<close> on POSIX\<close>

text \<open>
  A pure path is its root (empty, \<open>/\<close> or \<open>//\<close>) and its parts. Building a path from a
  string splits it at the slashes and drops the empty parts and the parts \<open>.\<close>; \<open>..\<close>
  stays. \<open>joinpath\<close> with an argument that has a root gives that argument.
\<close>

datatype path = PurePath (root: string) (parts: "string list")

text \<open>\<open>str.split(sep)\<close> for a separator of one character.\<close>

fun split_on :: "char \<Rightarrow> string \<Rightarrow> string list" where
  "split_on sep [] = [[]]"
| "split_on sep (c # cs) =
     (if c = sep then [] # split_on sep cs
      else (case split_on sep cs of [] \<Rightarrow> [[c]] | x # xs \<Rightarrow> (c # x) # xs))"

definition path_root :: "string \<Rightarrow> string" where
  "path_root s =
     (if take 1 s = ''/''
      then (if take 2 s = ''//'' \<and> take 3 s \<noteq> ''///'' then ''//'' else ''/'')
      else [])"

definition Path :: "string \<Rightarrow> path" where
  "Path s = PurePath (path_root s) (filter (\<lambda>x. x \<noteq> [] \<and> x \<noteq> ''.'') (split_on CHR ''/'' s))"

definition joinpath :: "path \<Rightarrow> string \<Rightarrow> path" where
  "joinpath p s =
     (let q = Path s in if root q \<noteq> [] then q else PurePath (root p) (parts p @ parts q))"

definition parent :: "path \<Rightarrow> path" where
  "parent p = PurePath (root p) (butlast (parts p))"

subsection \<open>The fitted model and the files on disk\<close>

text \<open>
  A fitted Prophet model is determined by the history it was fitted to. A forecast is the
  list of its rows. A figure is determined by the model and the forecast it draws.
\<close>

datatype model = Prophet (history: "(date \<times> real) list")

type_synonym forecast = "forecast_record list"

datatype figure = Plot model forecast | Plot_components model forecast

text \<open>
  The file system maps a path to what is there: a directory, a joblib file holding a
  model, or an image. Paths are compared as \<open>pathlib\<close> normalises them; symbolic links
  and \<open>..\<close> are not resolved.
\<close>

datatype node = Directory | Joblib model | Png figure

type_synonym filesystem = "path \<Rightarrow> node option"

definition exists :: "filesystem \<Rightarrow> path \<Rightarrow> bool" where
  "exists fs p = (fs p \<noteq> None)"

text \<open>
  Opening a file for writing (\<open>joblib.dump\<close>, \<open>savefig\<close>) creates or replaces it; it
  fails when the parent is missing or is not a directory, and when the path is a directory.
  There is no creation of directories anywhere in \<open>model.py\<close>.
\<close>

definition write_file :: "filesystem \<Rightarrow> path \<Rightarrow> node \<Rightarrow> error + filesystem" where
  "write_file fs p content =
     (case fs (parent p) of
        None \<Rightarrow> Inl FileNotFoundError
      | Some Directory \<Rightarrow>
          (if fs p = Some Directory then Inl IsADirectoryError else Inr (fs(p \<mapsto> content)))
      | Some _ \<Rightarrow> Inl NotADirectoryError)"

definition joblib_dump :: "filesystem \<Rightarrow> model \<Rightarrow> path \<Rightarrow> error + filesystem" where
  "joblib_dump fs m p = write_file fs p (Joblib m)"

definition joblib_load :: "filesystem \<Rightarrow> path \<Rightarrow> error + model" where
  "joblib_load fs p =
     (case fs p of
        None \<Rightarrow> Inl FileNotFoundError
      | Some Directory \<Rightarrow> Inl IsADirectoryError
      | Some (Joblib m) \<Rightarrow> Inr m
      | Some (Png f) \<Rightarrow> Inl UnpicklingError)"

definition savefig :: "filesystem \<Rightarrow> figure \<Rightarrow> path \<Rightarrow> error + filesystem" where
  "savefig fs fig p = write_file fs p (Png fig)"

section \<open>The libraries: yfinance, Prophet, pandas\<close>

text \<open>
  What the outside world supplies: the price history Yahoo Finance returns for a ticker
  and a date range (or the failure of the download), the numbers a fitted model predicts
  for a date, and what the date parser of pandas makes of a string that is not a plain
  date with a four-digit year (it guesses, by rules that depend on its version and on the
  current century: \<open>01/03/50\<close> is read as a day of 2050).
\<close>

record price_frame =
  Date_index :: "date list"
  price_columns :: "(string \<times> real list) list"

record world =
  yf_download :: "string \<Rightarrow> string \<Rightarrow> string \<Rightarrow> error + price_frame"
  prophet_trend :: "model \<Rightarrow> date \<Rightarrow> real"
  prophet_columns :: "model \<Rightarrow> date \<Rightarrow> (string \<times> real) list"
  pd_parse_other :: "string \<Rightarrow> error + date"

text \<open>
  Lines 32 to 36 of \<open>train\<close>: the index becomes the column \<open>Date\<close>, copied to \<open>ds\<close>;
  \<open>Adj Close\<close> is copied to \<open>y\<close> (\<open>KeyError\<close> when the frame has no such column); the
  frame is cut down to \<open>ds\<close> and \<open>y\<close>.
\<close>

definition prepare :: "price_frame \<Rightarrow> error + (date \<times> real) list" where
  "prepare data =
     (case map_of (price_columns data) ''Adj Close'' of
        None \<Rightarrow> Inl (KeyError ''Adj Close'')
      | Some y \<Rightarrow> Inr (zip (Date_index data) y))"

text \<open>\<open>Prophet().fit(df)\<close> refuses a frame with fewer than two rows.\<close>

definition Prophet_fit :: "(date \<times> real) list \<Rightarrow> error + model" where
  "Prophet_fit df = (if length df < 2 then Inl ValueError else Inr (Prophet df))"

text \<open>
  \<open>model.predict(df)\<close> refuses a frame with no rows; otherwise it returns one row for each
  row of \<open>df\<close>, in the same order and with the same \<open>ds\<close>.
\<close>

definition forecast_row :: "world \<Rightarrow> model \<Rightarrow> date \<Rightarrow> forecast_record" where
  "forecast_row w m d = \<lparr>ds = d, trend = prophet_trend w m d, columns = prophet_columns w m d\<rparr>"

definition Prophet_predict :: "world \<Rightarrow> model \<Rightarrow> date list \<Rightarrow> error + forecast" where
  "Prophet_predict w m dates =
     (if dates = [] then Inl ValueError else Inr (map (forecast_row w m) dates))"

subsection \<open>pandas: reading a date, \<open>date_range\<close>, \<open>tail\<close>\<close>

definition char_digit :: "char \<Rightarrow> nat option" where
  "char_digit c = map_of (zip ''0123456789'' [0 ..< 10]) c"

fun digits_value :: "string \<Rightarrow> nat \<Rightarrow> nat option" where
  "digits_value [] acc = Some acc"
| "digits_value (c # cs) acc =
     (case char_digit c of None \<Rightarrow> None | Some v \<Rightarrow> digits_value cs (10 * acc + v))"

definition parse_nat :: "string \<Rightarrow> nat option" where
  "parse_nat s = (if s = [] then None else digits_value s 0)"

definition make_date :: "nat option \<Rightarrow> nat option \<Rightarrow> nat option \<Rightarrow> date option" where
  "make_date y m d =
     (case (y, m, d) of
        (Some y', Some m', Some d') \<Rightarrow>
          (if valid_date (Date y' m' d') then Some (Date y' m' d') else None)
      | _ \<Rightarrow> None)"

text \<open>
  The two spellings of a date the program hands to pandas: \<open>YYYY-MM-DD\<close> (the start of
  the range) and \<open>MM/DD/YYYY\<close> (its end, month first). \<open>parse_date\<close> reads a string
  of one of these shapes, with a year of four digits, that names a day of the calendar.
\<close>

definition parse_date :: "string \<Rightarrow> date option" where
  "parse_date s =
     (case split_on CHR ''-'' s of
        [y, m, d] \<Rightarrow>
          (if length y = 4 then make_date (parse_nat y) (parse_nat m) (parse_nat d) else None)
      | _ \<Rightarrow>
        (case split_on CHR ''/'' s of
           [m, d, y] \<Rightarrow>
             (if length y = 4 then make_date (parse_nat y) (parse_nat m) (parse_nat d) else None)
         | _ \<Rightarrow> None))"

text \<open>Any other string is left to the guesses of the parser, which the world supplies.\<close>

definition to_datetime :: "world \<Rightarrow> string \<Rightarrow> error + date" where
  "to_datetime w s = (case parse_date s of Some dt \<Rightarrow> Inr dt | None \<Rightarrow> pd_parse_other w s)"

text \<open>
  A pandas timestamp counts nanoseconds in 64 bits: midnight of a day is representable
  from 1677-09-22 to 2262-04-11.
\<close>

definition in_bounds :: "date \<Rightarrow> bool" where
  "in_bounds dt = (toordinal (Date 1677 9 22) \<le> toordinal dt \<and> toordinal dt \<le> toordinal (Date 2262 4 11))"

text \<open>
  \<open>pd.date_range(start, end)\<close> with the default daily frequency: every day from \<open>start\<close>
  to \<open>end\<close>, both included; no day when \<open>end\<close> is before \<open>start\<close>.
\<close>

definition pd_date_range :: "world \<Rightarrow> string \<Rightarrow> string \<Rightarrow> error + date list" where
  "pd_date_range w start end' =
     (case to_datetime w start of
        Inl e \<Rightarrow> Inl e
      | Inr a \<Rightarrow>
     (case to_datetime w end' of
        Inl e \<Rightarrow> Inl e
      | Inr b \<Rightarrow>
          (if in_bounds a \<and> in_bounds b
           then Inr (map fromordinal [toordinal a .. toordinal b])
           else Inl OutOfBoundsDatetime)))"

text \<open>
  \<open>DataFrame.tail(n)\<close> is \<open>iloc[0:0]\<close> for \<open>n = 0\<close> and \<open>iloc[-n:]\<close> otherwise: the last
  \<open>n\<close> rows (all of them when there are fewer) for a positive \<open>n\<close>, and all rows but the
  first \<open>-n\<close> for a negative \<open>n\<close>.
\<close>

definition tail :: "'a list \<Rightarrow> int \<Rightarrow> 'a list" where
  "tail xs n =
     (if n = 0 then []
      else if 0 < n then drop (length xs - nat n) xs
      else drop (nat (- n)) xs)"

section \<open>\<open>model.py\<close>\<close>

text \<open>
  The module constants: \<open>BASE_DIR\<close> is the resolved directory of the script and \<open>TODAY\<close>
  the date of the day the module is loaded; \<open>MODEL_DIR\<close> and \<open>FIG_DIR\<close> are derived.
\<close>

record config =
  BASE_DIR :: path
  TODAY :: date

definition MODEL_DIR :: "config \<Rightarrow> path" where
  "MODEL_DIR cfg = joinpath (BASE_DIR cfg) ''models''"

definition FIG_DIR :: "config \<Rightarrow> path" where
  "FIG_DIR cfg = joinpath (BASE_DIR cfg) ''figures''"

text \<open>\<open>train\<close> (lines 19 to 41): download, prepare, fit, dump. It returns nothing.\<close>

definition train :: "world \<Rightarrow> config \<Rightarrow> filesystem \<Rightarrow> string \<Rightarrow> error + filesystem" where
  "train w cfg fs ticker =
     (case yf_download w ticker ''2020-01-01'' (strftime (TODAY cfg) ''%Y-%m-%d'') of
        Inl e \<Rightarrow> Inl e
      | Inr data \<Rightarrow>
          (case prepare data of
             Inl e \<Rightarrow> Inl e
           | Inr df_forecast \<Rightarrow>
               (case Prophet_fit df_forecast of
                  Inl e \<Rightarrow> Inl e
                | Inr m \<Rightarrow> joblib_dump fs m (joinpath (MODEL_DIR cfg) (ticker @ ''.joblib'')))))"

text \<open>
  \<open>predict\<close> (lines 44 to 80). The early return of line 64 gives \<open>False\<close>. The result is
  the file system after the two images are written, and the returned value.
\<close>

definition predict ::
  "world \<Rightarrow> config \<Rightarrow> filesystem \<Rightarrow> string \<Rightarrow> int \<Rightarrow> error + (filesystem \<times> pyval)" where
  "predict w cfg fs ticker days =
     (let model_file = joinpath (MODEL_DIR cfg) (ticker @ ''.joblib'') in
      if \<not> exists fs model_file then Inr (fs, PyBool False)
      else
        (case joblib_load fs model_file of
           Inl e \<Rightarrow> Inl e
         | Inr m \<Rightarrow>
        (case date_add (TODAY cfg) days of
           Inl e \<Rightarrow> Inl e
         | Inr future \<Rightarrow>
        (case pd_date_range w ''2020-01-01'' (strftime future ''%m/%d/%Y'') of
           Inl e \<Rightarrow> Inl e
         | Inr dates \<Rightarrow>
        (case Prophet_predict w m dates of
           Inl e \<Rightarrow> Inl e
         | Inr forecast \<Rightarrow>
        (case savefig fs (Plot m forecast) (joinpath (FIG_DIR cfg) (ticker @ ''_plot.png'')) of
           Inl e \<Rightarrow> Inl e
         | Inr fs1 \<Rightarrow>
        (case savefig fs1 (Plot_components m forecast)
                (joinpath (FIG_DIR cfg) (ticker @ ''_plot_components.png'')) of
           Inl e \<Rightarrow> Inl e
         | Inr fs2 \<Rightarrow> Inr (fs2, PyList (tail forecast days)))))))))"

text \<open>
  The entry point (lines 104 to 113). The two options are optional on the command line,
  with the defaults \<open>MSFT\<close> and 7. What \<open>print\<close> writes is kept as the list of the values
  printed.
\<close>

definition main ::
  "world \<Rightarrow> config \<Rightarrow> filesystem \<Rightarrow> string option \<Rightarrow> int option
     \<Rightarrow> error + (filesystem \<times> (string, real) dict list)" where
  "main w cfg fs ticker_opt days_opt =
     (let ticker = (case ticker_opt of None \<Rightarrow> ''MSFT'' | Some t \<Rightarrow> t);
          days = (case days_opt of None \<Rightarrow> 7 | Some d \<Rightarrow> d)
      in case train w cfg fs ticker of
           Inl e \<Rightarrow> Inl e
         | Inr fs1 \<Rightarrow>
        (case predict w cfg fs1 ticker days of
           Inl e \<Rightarrow> Inl e
         | Inr (fs2, prediction_list) \<Rightarrow>
        (case convert prediction_list of
           Inl e \<Rightarrow> Inl e
         | Inr output \<Rightarrow> Inr (fs2, [output]))))"

section \<open>Names used in the statements\<close>

text \<open>
  The three paths \<open>train\<close> and \<open>predict\<close> build from a ticker, the file \<open>name\<close> in the
  directory \<open>dir\<close>, the tickers with no path separator in them, and the condition under
  which a file can be written.
\<close>

definition artifact_path :: "config \<Rightarrow> string \<Rightarrow> path" where
  "artifact_path cfg ticker = joinpath (MODEL_DIR cfg) (ticker @ ''.joblib'')"

definition plot_path :: "config \<Rightarrow> string \<Rightarrow> path" where
  "plot_path cfg ticker = joinpath (FIG_DIR cfg) (ticker @ ''_plot.png'')"

definition components_path :: "config \<Rightarrow> string \<Rightarrow> path" where
  "components_path cfg ticker = joinpath (FIG_DIR cfg) (ticker @ ''_plot_components.png'')"

definition child :: "path \<Rightarrow> string \<Rightarrow> path" where
  "child dir name = PurePath (root dir) (parts dir @ [name])"

definition plain :: "string \<Rightarrow> bool" where
  "plain ticker = (CHR ''/'' \<notin> set ticker)"

definition can_write :: "filesystem \<Rightarrow> path \<Rightarrow> bool" where
  "can_write fs p = (fs (parent p) = Some Directory \<and> fs p \<noteq> Some Directory)"

section \<open>Auxiliary notions for the calendar\<close>

text \<open>
  The second half of \<open>_ord2ymd\<close> (from the day of the year to month and day) as a
  function of its own, what it must achieve, and what \<open>_ord2ymd\<close> as a whole must
  achieve for the ordinal \<open>n\<close>.
\<close>

definition month_day :: "bool \<Rightarrow> int \<Rightarrow> int \<times> int" where
  "month_day leapyear n =
     (let month = (n + 50) div 32;
          preceding = DAYS_BEFORE_MONTH month + (if 2 < month \<and> leapyear then 1 else 0)
      in if n < preceding
         then (let month = month - 1;
                   preceding = preceding
                     - (DAYS_IN_MONTH month + (if month = 2 \<and> leapyear then 1 else 0))
               in (month, n - preceding + 1))
         else (month, n - preceding + 1))"

definition month_day_ok :: "bool \<Rightarrow> int \<Rightarrow> int \<times> int \<Rightarrow> bool" where
  "month_day_ok L r p =
     (case p of (m, dd) \<Rightarrow>
        1 \<le> m \<and> m \<le> 12 \<and> 1 \<le> dd
        \<and> dd \<le> DAYS_IN_MONTH m + (if m = 2 \<and> L then 1 else 0)
        \<and> DAYS_BEFORE_MONTH m + (if 2 < m \<and> L then 1 else 0) + dd = r + 1)"

definition ymd_ok :: "int \<Rightarrow> int \<times> int \<times> int \<Rightarrow> bool" where
  "ymd_ok n t =
     (case t of (y, m, d) \<Rightarrow>
        1 \<le> y \<and> 1 \<le> m \<and> m \<le> 12 \<and> 1 \<le> d \<and> d \<le> days_in_month y m
        \<and> ymd2ord y m d = n \<and> n \<le> 366 * y \<and> (n \<le> 3652059 \<longrightarrow> y \<le> 9999))"

section \<open>Sample inputs\<close>

text \<open>
  A world in which every download returns two days of prices, the trend a model
  predicts depends on the length of its history, and the parser of pandas guesses
  nothing; the script in \<open>/app\<close>, loaded on 2020-01-03; a disk with the directories
  \<open>models\<close> and \<open>figures\<close>, empty or holding an older model (fitted to three days of
  prices) for one ticker.
\<close>

definition w0 :: world where
  "w0 = \<lparr>yf_download = (\<lambda>ticker start end'.
            Inr \<lparr>Date_index = [Date 2020 1 2, Date 2020 1 3],
                 price_columns = [(''Close'', [3, 4]), (''Adj Close'', [1, 2])]\<rparr>),
         prophet_trend = (\<lambda>m d. real (length (history m)) + real (day d)),
         prophet_columns = (\<lambda>m d. []),
         pd_parse_other = (\<lambda>s. Inl ValueError)\<rparr>"

definition cfg0 :: config where
  "cfg0 = \<lparr>BASE_DIR = PurePath ''/'' [''app''], TODAY = Date 2020 1 3\<rparr>"

definition fs0 :: filesystem where
  "fs0 = [PurePath ''/'' [''app''] \<mapsto> Directory,
          PurePath ''/'' [''app'', ''models''] \<mapsto> Directory,
          PurePath ''/'' [''app'', ''figures''] \<mapsto> Directory]"

definition old_model :: model where
  "old_model = Prophet [(Date 2019 12 30, 5), (Date 2019 12 31, 6), (Date 2020 1 2, 7)]"

definition new_model :: model where
  "new_model = Prophet [(Date 2020 1 2, 1), (Date 2020 1 3, 2)]"


definition fs_msft :: filesystem where
  "fs_msft = fs0(PurePath ''/'' [''app'', ''models'', ''MSFT.joblib''] \<mapsto> Joblib old_model)"

text \<open>
  The same world with a parser that reads \<open>01/03/50\<close> as 2050-01-03, as the parser of
  pandas does in this century.
\<close>

definition w_guess :: world where
  "w_guess = w0\<lparr>pd_parse_other :=
      (\<lambda>s. if s = ''01/03/50'' then Inr (Date 2050 1 3) else Inl ValueError)\<rparr>"


definition fs_tmp :: filesystem where
  "fs_tmp = fs0(PurePath ''/'' [''tmp''] \<mapsto> Directory,
                PurePath ''/'' [''tmp'', ''x.joblib''] \<mapsto> Joblib new_model)"

section \<open>Verification: \<open>convert\<close>\<close>

declare strftime.simps [simp del]

lemma convert_loop_Cons:
  "convert_loop (data # rest) out = convert_loop rest (dict_set (date_key data) (trend data) out)"
  by (simp add: date_key_def)

declare convert_loop.simps(2) [simp del]
declare convert_loop_Cons [simp]

lemma strftime_mdY:
  "strftime dt ''%m/%d/%Y'' =
     zfill 2 (dec (month dt)) @ ''/'' @ zfill 2 (dec (day dt)) @ ''/'' @ dec (year dt)"
  by (simp add: directive_def strftime.simps)

lemma strftime_Ymd:
  "strftime dt ''%Y-%m-%d'' =
     dec (year dt) @ ''-'' @ zfill 2 (dec (month dt)) @ ''-'' @ zfill 2 (dec (day dt))"
  by (simp add: directive_def strftime.simps)

lemma length_dec_1: "n < 10 \<Longrightarrow> length (dec n) = 1"
  by (simp add: dec.simps [of n])

lemma length_dec_2: "10 \<le> n \<Longrightarrow> n < 100 \<Longrightarrow> length (dec n) = 2"
  by (simp add: dec.simps [of n] length_dec_1)

lemma length_dec_3: "100 \<le> n \<Longrightarrow> n < 1000 \<Longrightarrow> length (dec n) = 3"
  by (simp add: dec.simps [of n] length_dec_2)

lemma length_dec_4: "1000 \<le> n \<Longrightarrow> n < 10000 \<Longrightarrow> length (dec n) = 4"
  by (simp add: dec.simps [of n] length_dec_3)

lemma length_zfill_2: "n < 100 \<Longrightarrow> length (zfill 2 (dec n)) = 2"
  by (cases "n < 10") (simp_all add: zfill_def length_dec_1 length_dec_2)

lemma dict_get_set: "dict_get (dict_set k v d) k' = (if k' = k then Some v else dict_get d k')"
  by (induction d) (auto simp: dict_get_def)

lemma keys_dict_set:
  "dict_keys (dict_set k v d) = (if k \<in> set (dict_keys d) then dict_keys d else dict_keys d @ [k])"
  by (induction d) (force simp: dict_keys_def)+

lemma set_dict_set: "set (dict_set k v d) \<subseteq> insert (k, v) (set d)"
  by (induction d) (auto split: if_splits)

lemma convert_loop_get:
  "dict_get (convert_loop recs out) k =
     (if k \<in> date_key ` set recs
      then Some (trend (last (filter (\<lambda>r. date_key r = k) recs)))
      else dict_get out k)"
proof (induction recs arbitrary: out)
  case Nil
  show ?case by simp
next
  case (Cons data rest)
  show ?case
  proof (cases "k \<in> date_key ` set rest")
    case True
    then have "filter (\<lambda>r. date_key r = k) rest \<noteq> []"
      by (auto simp: filter_empty_conv)
    with True show ?thesis
      using Cons.IH [of "dict_set (date_key data) (trend data) out"]
      by simp
  next
    case False
    then have "filter (\<lambda>r. date_key r = k) rest = []"
      by (auto simp: filter_empty_conv)
    with False show ?thesis
      using Cons.IH [of "dict_set (date_key data) (trend data) out"]
      by (auto simp: dict_get_set)
  qed
qed

lemma convert_loop_keys_set:
  "set (dict_keys (convert_loop recs out)) = set (dict_keys out) \<union> date_key ` set recs"
  by (induction recs arbitrary: out) (auto simp: keys_dict_set)

lemma convert_loop_keys_distinct:
  "distinct (dict_keys out) \<Longrightarrow> distinct (dict_keys (convert_loop recs out))"
  by (induction recs arbitrary: out) (auto simp: keys_dict_set)

lemma convert_loop_entries:
  "set (convert_loop recs out) \<subseteq> set out \<union> entry ` set recs"
proof (induction recs arbitrary: out)
  case Nil
  show ?case by simp
next
  case (Cons data rest)
  have "set (convert_loop rest (dict_set (date_key data) (trend data) out))
          \<subseteq> set (dict_set (date_key data) (trend data) out) \<union> entry ` set rest"
    by (rule Cons.IH)
  also have "\<dots> \<subseteq> insert (entry data) (set out) \<union> entry ` set rest"
    using set_dict_set [of "date_key data" "trend data" out] by (auto simp: entry_def)
  finally show ?case by auto
qed

lemma convert_loop_keys_order:
  "distinct (map date_key recs) \<Longrightarrow> set (dict_keys out) \<inter> date_key ` set recs = {} \<Longrightarrow>
   dict_keys (convert_loop recs out) = dict_keys out @ map date_key recs"
proof (induction recs arbitrary: out)
  case Nil
  show ?case by simp
next
  case (Cons data rest)
  let ?out = "dict_set (date_key data) (trend data) out"
  from Cons.prems have new: "date_key data \<notin> set (dict_keys out)" by auto
  then have keys: "dict_keys ?out = dict_keys out @ [date_key data]"
    by (simp add: keys_dict_set)
  from Cons.prems have "distinct (map date_key rest)"
    and "set (dict_keys ?out) \<inter> date_key ` set rest = {}"
    by (auto simp: keys)
  then have "dict_keys (convert_loop rest ?out) = dict_keys ?out @ map date_key rest"
    by (rule Cons.IH)
  then show ?case by (simp add: keys)
qed

lemma convert_loop_length:
  "length (convert_loop recs []) = card (date_key ` set recs)"
proof -
  have "distinct (dict_keys (convert_loop recs []))"
    by (rule convert_loop_keys_distinct) (simp add: dict_keys_def)
  then have "card (set (dict_keys (convert_loop recs []))) = length (dict_keys (convert_loop recs []))"
    by (rule distinct_card)
  then show ?thesis by (simp add: convert_loop_keys_set) (simp add: dict_keys_def)
qed


lemma days_in_month_table: "\<forall>m\<in>set [1 ..< 13]. days_in_month y (int m) \<le> 31"
  by (simp add: upt_rec days_in_month_def DAYS_IN_MONTH_def)

lemma valid_date_day: "valid_date dt \<Longrightarrow> day dt < 100"
proof -
  assume v: "valid_date dt"
  then have "month dt \<in> set [1 ..< 13]" by (simp add: valid_date_def)
  with days_in_month_table have "days_in_month (int (year dt)) (int (month dt)) \<le> 31"
    by blast
  with v show ?thesis by (simp add: valid_date_def)
qed

lemmas key_eval = date_key_def strftime.simps directive_def dec.simps zfill_def digit_char_def

lemma filter_key_distinct:
  "distinct (map f xs) \<Longrightarrow> x \<in> set xs \<Longrightarrow> filter (\<lambda>y. f y = f x) xs = [x]"
proof (induction xs)
  case Nil
  then show ?case by simp
next
  case (Cons a xs)
  show ?case
  proof (cases "x = a")
    case True
    from Cons.prems have "f a \<notin> f ` set xs" by simp
    then have "\<forall>y\<in>set xs. f y \<noteq> f a" by (metis imageI)
    then have "filter (\<lambda>y. f y = f a) xs = []" by (simp add: filter_empty_conv)
    with True show ?thesis by simp
  next
    case False
    with Cons.prems have "x \<in> set xs" and "f a \<noteq> f x" by auto
    with Cons show ?thesis by simp
  qed
qed

lemma convert_example:
  "convert (PyList [\<lparr>ds = Date 2024 1 1, trend = 100.5, columns = []\<rparr>]) = Inr [(''01/01/2024'', 100.5)]"
  by (simp add: date_key_def strftime.simps directive_def dec.simps zfill_def digit_char_def)

text \<open>
  Claim C3 does not hold for every list. When two records have the same date, the
  date of the first one does not map to its trend: the second assignment replaces the
  value. And a date before the year 1000 is not printed as \<open>MM/DD/YYYY\<close>: the year of
  0999-01-05 is printed on three digits.
\<close>

theorem convert_earlier_record_overwritten:
  "convert (PyList [\<lparr>ds = Date 2024 1 1, trend = 1, columns = []\<rparr>,
                    \<lparr>ds = Date 2024 1 1, trend = 2, columns = []\<rparr>])
     = Inr [(''01/01/2024'', 2)]
   \<and> date_key \<lparr>ds = Date 2024 1 1, trend = 1, columns = []\<rparr> = ''01/01/2024''
   \<and> dict_get [(''01/01/2024'', 2 :: real)] ''01/01/2024'' \<noteq> Some 1
   \<and> date_key \<lparr>ds = Date 999 1 5, trend = 0, columns = []\<rparr> = ''01/05/999''"
  by (simp add: date_key_def dict_get_def strftime.simps directive_def dec.simps zfill_def digit_char_def)

text \<open>
  Claim C3, amended. For every list of records, \<open>convert\<close> returns, without raising, a
  mapping with one entry for each formatted date of the list: its keys are the dates of
  the records formatted by \<open>%m/%d/%Y\<close>, and each key maps to the trend of the last
  record with that formatted date. When no formatted date is repeated, the formatted date
  of every record maps to the trend of that record. The formatted date is the month on
  two digits, the day on two digits and the year in decimal, separated by slashes; for a
  date of the calendar in the year 1000 or later this is \<open>MM/DD/YYYY\<close>. For the record
  of 2024-01-01 with trend 100.5 the result is the mapping of \<open>01/01/2024\<close> to 100.5.
  \<open>convert\<close> is a function of its argument alone: it reads and writes no state.
\<close>

theorem convert_maps_date_to_trend:
  "\<exists>out. convert (PyList recs) = Inr out
     \<and> set (dict_keys out) = date_key ` set recs
     \<and> distinct (dict_keys out)
     \<and> (\<forall>k\<in>date_key ` set recs.
           dict_get out k = Some (trend (last (filter (\<lambda>r. date_key r = k) recs))))
     \<and> (distinct (map date_key recs) \<longrightarrow>
           (\<forall>r\<in>set recs. dict_get out (date_key r) = Some (trend r)))
     \<and> (\<forall>r. date_key r =
            zfill 2 (dec (month (ds r))) @ ''/'' @ zfill 2 (dec (day (ds r))) @ ''/'' @
            dec (year (ds r)))
     \<and> (\<forall>r. valid_date (ds r) \<and> 1000 \<le> year (ds r) \<longrightarrow>
            length (zfill 2 (dec (month (ds r)))) = 2
          \<and> length (zfill 2 (dec (day (ds r)))) = 2
          \<and> length (dec (year (ds r))) = 4)
     \<and> convert (PyList [\<lparr>ds = Date 2024 1 1, trend = 100.5, columns = []\<rparr>])
           = Inr [(''01/01/2024'', 100.5)]"
proof -
  let ?out = "convert_loop recs []"
  have keys: "set (dict_keys ?out) = date_key ` set recs"
    using convert_loop_keys_set [of recs "[]"] by (simp add: dict_keys_def)
  have dist: "distinct (dict_keys ?out)"
    by (rule convert_loop_keys_distinct) (simp add: dict_keys_def)
  have last: "\<forall>k\<in>date_key ` set recs.
           dict_get ?out k = Some (trend (last (filter (\<lambda>r. date_key r = k) recs)))"
    by (simp add: convert_loop_get)
  have each: "dict_get ?out (date_key r) = Some (trend r)"
    if "distinct (map date_key recs)" and "r \<in> set recs" for r
    using that by (simp add: convert_loop_get filter_key_distinct)
  have fmt: "date_key r =
            zfill 2 (dec (month (ds r))) @ ''/'' @ zfill 2 (dec (day (ds r))) @ ''/'' @
            dec (year (ds r))" for r
    by (simp add: date_key_def strftime_mdY)
  have shape: "length (zfill 2 (dec (month (ds r)))) = 2
          \<and> length (zfill 2 (dec (day (ds r)))) = 2
          \<and> length (dec (year (ds r))) = 4"
    if "valid_date (ds r) \<and> 1000 \<le> year (ds r)" for r
    using that valid_date_day [of "ds r"]
    by (simp add: valid_date_def length_zfill_2 length_dec_4)
  have c: "convert (PyList recs) = Inr ?out" by simp
  have each': "distinct (map date_key recs) \<longrightarrow>
           (\<forall>r\<in>set recs. dict_get ?out (date_key r) = Some (trend r))"
    using each by blast
  have fmt': "\<forall>r. date_key r =
            zfill 2 (dec (month (ds r))) @ ''/'' @ zfill 2 (dec (day (ds r))) @ ''/'' @
            dec (year (ds r))"
    using fmt by blast
  have shape': "\<forall>r. valid_date (ds r) \<and> 1000 \<le> year (ds r) \<longrightarrow>
            length (zfill 2 (dec (month (ds r)))) = 2
          \<and> length (zfill 2 (dec (day (ds r)))) = 2
          \<and> length (dec (year (ds r))) = 4"
    using shape by blast
  from c keys dist last each' fmt' shape' convert_example show ?thesis
    by (intro exI [of _ ?out] conjI) assumption+
qed

text \<open>
  The witness of C3: in a list of three records where the first and the last have the
  same date, that date maps to the trend of the last one; in a list of two records of
  different dates, each date maps to the trend of its record; 2024-01-01 is a date of
  the calendar after the year 1000, printed on ten characters.
\<close>

theorem convert_maps_date_to_trend_witness:
  "(\<exists>out. convert (PyList [\<lparr>ds = Date 2024 1 1, trend = 100.5, columns = []\<rparr>,
                             \<lparr>ds = Date 2024 1 2, trend = 3, columns = []\<rparr>,
                             \<lparr>ds = Date 2024 1 1, trend = 7, columns = []\<rparr>]) = Inr out
        \<and> dict_get out ''01/01/2024'' = Some 7 \<and> dict_get out ''01/02/2024'' = Some 3
        \<and> length out = 2)
   \<and> distinct (map date_key [\<lparr>ds = Date 2024 1 2, trend = 3, columns = []\<rparr>,
                               \<lparr>ds = Date 2024 1 1, trend = 4, columns = []\<rparr>])
   \<and> (\<exists>out. convert (PyList [\<lparr>ds = Date 2024 1 2, trend = 3, columns = []\<rparr>,
                               \<lparr>ds = Date 2024 1 1, trend = 4, columns = []\<rparr>]) = Inr out
        \<and> dict_get out ''01/02/2024'' = Some 3 \<and> dict_get out ''01/01/2024'' = Some 4)
   \<and> valid_date (Date 2024 1 1) \<and> 1000 \<le> year (Date 2024 1 1)
   \<and> length (date_key \<lparr>ds = Date 2024 1 1, trend = 100.5, columns = []\<rparr>) = 10"
proof -
  let ?a = "\<lparr>ds = Date 2024 1 1, trend = 100.5, columns = []\<rparr>"
  let ?b = "\<lparr>ds = Date 2024 1 2, trend = 3, columns = []\<rparr>"
  let ?c = "\<lparr>ds = Date 2024 1 1, trend = 7, columns = []\<rparr>"
  let ?d = "\<lparr>ds = Date 2024 1 1, trend = 4, columns = []\<rparr>"
  from convert_maps_date_to_trend [of "[?a, ?b, ?c]"] obtain out
    where c: "convert (PyList [?a, ?b, ?c]) = Inr out"
      and ks: "set (dict_keys out) = date_key ` set [?a, ?b, ?c]"
      and dk: "distinct (dict_keys out)"
      and v: "\<forall>k\<in>date_key ` set [?a, ?b, ?c].
           dict_get out k = Some (trend (last (filter (\<lambda>r. date_key r = k) [?a, ?b, ?c])))"
    by blast
  from v have "dict_get out (date_key ?c)
      = Some (trend (last (filter (\<lambda>r. date_key r = date_key ?c) [?a, ?b, ?c])))"
    by simp
  then have v1: "dict_get out ''01/01/2024'' = Some 7"
    by (simp add: key_eval)
  from v have "dict_get out (date_key ?b)
      = Some (trend (last (filter (\<lambda>r. date_key r = date_key ?b) [?a, ?b, ?c])))"
    by simp
  then have v2: "dict_get out ''01/02/2024'' = Some 3"
    by (simp add: key_eval)
  have "set (dict_keys out) = {''01/01/2024'', ''01/02/2024''}"
    by (auto simp: ks key_eval)
  then have "card (set (dict_keys out)) = 2"
    by simp
  with distinct_card [OF dk] have len: "length out = 2"
    by (simp add: dict_keys_def)
  have d: "distinct (map date_key [?b, ?d])"
    by (simp add: key_eval)
  from convert_maps_date_to_trend [of "[?b, ?d]"] d obtain out'
    where c': "convert (PyList [?b, ?d]) = Inr out'"
      and e: "\<forall>r\<in>set [?b, ?d]. dict_get out' (date_key r) = Some (trend r)"
    by blast
  from e have v3: "dict_get out' ''01/02/2024'' = Some 3"
    and v4: "dict_get out' ''01/01/2024'' = Some 4"
    by (simp_all add: key_eval)
  have vd: "valid_date (Date 2024 1 1) \<and> 1000 \<le> year (Date 2024 1 1)"
    by (simp add: valid_date_def days_in_month_def DAYS_IN_MONTH_def)
  from convert_maps_date_to_trend [of "[]"]
  have fm: "\<forall>r. date_key r =
            zfill 2 (dec (month (ds r))) @ ''/'' @ zfill 2 (dec (day (ds r))) @ ''/'' @
            dec (year (ds r))"
    and sh: "\<forall>r. valid_date (ds r) \<and> 1000 \<le> year (ds r) \<longrightarrow>
            length (zfill 2 (dec (month (ds r)))) = 2
          \<and> length (zfill 2 (dec (day (ds r)))) = 2
          \<and> length (dec (year (ds r))) = 4"
    by blast+
  from sh [rule_format, of ?a] vd
  have "length (zfill 2 (dec (month (ds ?a)))) = 2
          \<and> length (zfill 2 (dec (day (ds ?a)))) = 2
          \<and> length (dec (year (ds ?a))) = 4"
    by simp
  with fm [rule_format, of ?a] have ten: "length (date_key ?a) = 10"
    by simp
  from c v1 v2 len d c' v3 v4 vd ten show ?thesis
    by (intro conjI exI [of _ out] exI [of _ out']) simp_all
qed

text \<open>
  Claim C4. \<open>convert\<close> applied to the empty list of records returns the empty mapping.
\<close>

theorem convert_empty: "convert (PyList []) = Inr []"
  by simp

text \<open>
  Claim C9. When the formatted dates of the records are pairwise distinct, the keys of the
  returned mapping, in insertion order, are the formatted dates of the records in the order
  of the input list.
\<close>

theorem convert_keys_follow_input_order:
  "distinct (map date_key recs) \<Longrightarrow>
   \<exists>out. convert (PyList recs) = Inr out \<and> dict_keys out = map date_key recs"
  using convert_loop_keys_order [of recs "[]"] by (simp add: dict_keys_def)

text \<open>
  The witness of C9: two records in descending date order keep that order in the keys.
\<close>

theorem convert_keys_follow_input_order_witness:
  "distinct (map date_key [\<lparr>ds = Date 2024 1 2, trend = 3, columns = []\<rparr>,
                            \<lparr>ds = Date 2024 1 1, trend = 4, columns = []\<rparr>])
   \<and> (\<exists>out. convert (PyList [\<lparr>ds = Date 2024 1 2, trend = 3, columns = []\<rparr>,
                               \<lparr>ds = Date 2024 1 1, trend = 4, columns = []\<rparr>]) = Inr out
         \<and> dict_keys out = [''01/02/2024'', ''01/01/2024''])"
proof -
  let ?recs = "[\<lparr>ds = Date 2024 1 2, trend = 3, columns = []\<rparr>,
                \<lparr>ds = Date 2024 1 1, trend = 4, columns = []\<rparr>]"
  have keys: "map date_key ?recs = [''01/02/2024'', ''01/01/2024'']"
    by (simp add: date_key_def strftime.simps directive_def dec.simps zfill_def digit_char_def)
  then have d: "distinct (map date_key ?recs)" by simp
  from convert_keys_follow_input_order [OF d] keys d show ?thesis by simp
qed

text \<open>
  Claim C10. When two or more records format to the same date string, the returned mapping
  has one entry per date string, holding the trend of the last record with that date
  string, and it has strictly fewer entries than the input list has records.
\<close>

theorem convert_last_record_wins:
  "\<not> distinct (map date_key recs) \<Longrightarrow>
   \<exists>out. convert (PyList recs) = Inr out
     \<and> (\<forall>k\<in>date_key ` set recs.
           dict_get out k = Some (trend (last (filter (\<lambda>r. date_key r = k) recs))))
     \<and> distinct (dict_keys out)
     \<and> length out < length recs"
proof -
  assume dup: "\<not> distinct (map date_key recs)"
  let ?out = "convert_loop recs []"
  have vals: "\<forall>k\<in>date_key ` set recs.
           dict_get ?out k = Some (trend (last (filter (\<lambda>r. date_key r = k) recs)))"
    by (simp add: convert_loop_get)
  have dist: "distinct (dict_keys ?out)"
    by (rule convert_loop_keys_distinct) (simp add: dict_keys_def)
  have "card (set (map date_key recs)) \<noteq> length (map date_key recs)"
    using dup card_distinct by blast
  moreover have "card (set (map date_key recs)) \<le> length (map date_key recs)"
    by (rule card_length)
  ultimately have "length ?out < length recs"
    by (simp add: convert_loop_length)
  with vals dist show ?thesis by simp
qed

text \<open>
  The witness of C10: two records of the same day with trends 1 and 2 leave one entry,
  with trend 2.
\<close>

theorem convert_last_record_wins_witness:
  "\<not> distinct (map date_key [\<lparr>ds = Date 2024 1 1, trend = 1, columns = []\<rparr>,
                               \<lparr>ds = Date 2024 1 1, trend = 2, columns = []\<rparr>])
   \<and> convert (PyList [\<lparr>ds = Date 2024 1 1, trend = 1, columns = []\<rparr>,
                       \<lparr>ds = Date 2024 1 1, trend = 2, columns = []\<rparr>])
       = Inr [(''01/01/2024'', 2)]"
proof -
  let ?recs = "[\<lparr>ds = Date 2024 1 1, trend = 1, columns = []\<rparr>,
                \<lparr>ds = Date 2024 1 1, trend = 2, columns = []\<rparr>]"
  have dup: "\<not> distinct (map date_key ?recs)" by (simp add: date_key_def)
  have k: "date_key \<lparr>ds = Date 2024 1 1, trend = 1, columns = []\<rparr> = ''01/01/2024''"
    by (simp add: date_key_def strftime.simps directive_def dec.simps zfill_def digit_char_def)
  from convert_last_record_wins [OF dup]
  obtain out where c: "convert (PyList ?recs) = Inr out"
    and v: "\<forall>k\<in>date_key ` set ?recs.
           dict_get out k = Some (trend (last (filter (\<lambda>r. date_key r = k) ?recs)))"
    and l: "length out < length ?recs" and d: "distinct (dict_keys out)"
    by blast
  have "convert (PyList ?recs) = Inr [(''01/01/2024'', 2)]"
    by (simp add: date_key_def strftime.simps directive_def dec.simps zfill_def digit_char_def)
  with dup show ?thesis by simp
qed

section \<open>Verification: the calendar and the date strings\<close>

subsection \<open>From an ordinal to a date and back\<close>

lemma days_before_year_decomp:
  fixes a b c d :: int
  assumes "0 \<le> b" "b \<le> 3" "0 \<le> c" "c \<le> 24" "0 \<le> d" "d \<le> 3"
  shows "days_before_year (400 * a + 100 * b + 4 * c + d + 1)
           = 146097 * a + 36524 * b + 1461 * c + 365 * d"
proof -
  let ?y = "400 * a + 100 * b + 4 * c + d"
  have 4: "?y div 4 = 100 * a + 25 * b + c"
    using assms by (intro int_div_pos_eq [where r = d]) auto
  have 100: "?y div 100 = 4 * a + b"
    using assms by (intro int_div_pos_eq [where r = "4 * c + d"]) auto
  have 400: "?y div 400 = a"
    using assms by (intro int_div_pos_eq [where r = "100 * b + 4 * c + d"]) auto
  show ?thesis
    by (simp add: days_before_year_def 4 100 400)
qed

lemma mod_eq_0_range:
  fixes z k :: int
  assumes "1 \<le> z" "z \<le> k"
  shows "(z mod k = 0) = (z = k)"
proof (cases "z = k")
  case True
  then show ?thesis by simp
next
  case False
  with assms have "z mod k = z" by simp
  with assms False show ?thesis by simp
qed

lemma is_leap_decomp:
  fixes a b c d :: int
  assumes "0 \<le> b" "b \<le> 3" "0 \<le> c" "c \<le> 24" "0 \<le> d" "d \<le> 3"
  shows "is_leap (400 * a + 100 * b + 4 * c + d + 1) = (d = 3 \<and> (c \<noteq> 24 \<or> b = 3))"
proof -
  define y where "y = 400 * a + 100 * b + 4 * c + d + 1"
  have "y = (d + 1) + 4 * (100 * a + 25 * b + c)" by (simp add: y_def)
  then have "y mod 4 = (d + 1) mod 4" by (metis mod_mult_self2)
  moreover have "((d + 1) mod 4 = 0) = (d + 1 = 4)"
    using assms by (intro mod_eq_0_range) auto
  ultimately have m4: "(y mod 4 = 0) = (d = 3)" by auto
  have "y = (4 * c + d + 1) + 100 * (4 * a + b)" by (simp add: y_def)
  then have "y mod 100 = (4 * c + d + 1) mod 100" by (metis mod_mult_self2)
  moreover have "((4 * c + d + 1) mod 100 = 0) = (4 * c + d + 1 = 100)"
    using assms by (intro mod_eq_0_range) auto
  moreover have "0 \<le> (4 * c + d + 1) mod 100" by simp
  ultimately have m100: "(0 < y mod 100) = (4 * c + d \<noteq> 99)" by auto
  have "y = (100 * b + 4 * c + d + 1) + 400 * a" by (simp add: y_def)
  then have "y mod 400 = (100 * b + 4 * c + d + 1) mod 400" by (metis mod_mult_self2)
  moreover have "((100 * b + 4 * c + d + 1) mod 400 = 0) = (100 * b + 4 * c + d + 1 = 400)"
    using assms by (intro mod_eq_0_range) auto
  ultimately have m400: "(y mod 400 = 0) = (100 * b + 4 * c + d = 399)" by auto
  have "is_leap y = (d = 3 \<and> (4 * c + d \<noteq> 99 \<or> 100 * b + 4 * c + d = 399))"
    by (simp only: is_leap_def m4 m100 m400)
  also have "\<dots> = (d = 3 \<and> (c \<noteq> 24 \<or> b = 3))"
    using assms by auto
  finally show ?thesis by (simp only: y_def)
qed

lemma ord2ymd_cases:
  fixes n :: int
  assumes "1 \<le> n"
  obtains (last_day) a b c d :: int
    where "n = 146097 * a + 36524 * b + 1461 * c + 365 * d + 1" and "0 \<le> a"
      and "(d = 4 \<and> 0 \<le> b \<and> b \<le> 3 \<and> 0 \<le> c \<and> c \<le> 23) \<or> (b = 4 \<and> c = 0 \<and> d = 0)"
      and "ord2ymd n = (400 * a + 100 * b + 4 * c + d, 12, 31)"
  | (inside) a b c d r :: int
    where "n = 146097 * a + 36524 * b + 1461 * c + 365 * d + r + 1" and "0 \<le> a"
      and "0 \<le> b" and "b \<le> 3" and "0 \<le> c" and "c \<le> 24" and "0 \<le> d" and "d \<le> 3"
      and "0 \<le> r" and "r < 365"
      and "ord2ymd n = (case month_day (d = 3 \<and> (c \<noteq> 24 \<or> b = 3)) r of
             (m, dd) \<Rightarrow> (400 * a + 100 * b + 4 * c + d + 1, m, dd))"
proof -
  define a where "a = (n - 1) div 146097"
  define r1 where "r1 = (n - 1) mod 146097"
  define b where "b = r1 div 36524"
  define r2 where "r2 = r1 mod 36524"
  define c where "c = r2 div 1461"
  define r3 where "r3 = r2 mod 1461"
  define d where "d = r3 div 365"
  define r where "r = r3 mod 365"
  have e1: "n - 1 = 146097 * a + r1" by (simp add: a_def r1_def)
  have e2: "r1 = 36524 * b + r2" by (simp add: b_def r2_def)
  have e3: "r2 = 1461 * c + r3" by (simp add: c_def r3_def)
  have e4: "r3 = 365 * d + r" by (simp add: d_def r_def)
  have b1: "0 \<le> r1" "r1 < 146097" by (simp_all add: r1_def)
  have b2: "0 \<le> r2" "r2 < 36524" by (simp_all add: r2_def)
  have b3: "0 \<le> r3" "r3 < 1461" by (simp_all add: r3_def)
  have b4: "0 \<le> r" "r < 365" by (simp_all add: r_def)
  have a0: "0 \<le> a" using assms by (simp add: a_def pos_imp_zdiv_nonneg_iff)
  have b0: "0 \<le> b" using b1 by (simp add: b_def pos_imp_zdiv_nonneg_iff)
  have c0: "0 \<le> c" using b2 by (simp add: c_def pos_imp_zdiv_nonneg_iff)
  have d0: "0 \<le> d" using b3 by (simp add: d_def pos_imp_zdiv_nonneg_iff)
  have bu: "b \<le> 4" using e2 b1 b2 by linarith
  have cu: "c \<le> 24" using e3 b2 b3 by linarith
  have du: "d \<le> 4" using e4 b3 b4 by linarith
  have n: "n = 146097 * a + 36524 * b + 1461 * c + 365 * d + r + 1"
    using e1 e2 e3 e4 by linarith
  have unfold: "ord2ymd n =
      (if d = 4 \<or> b = 4 then (a * 400 + 1 + b * 100 + c * 4 + d - 1, 12, 31)
       else case month_day (d = 3 \<and> (c \<noteq> 24 \<or> b = 3)) r of
             (m, dd) \<Rightarrow> (a * 400 + 1 + b * 100 + c * 4 + d, m, dd))"
    apply (simp only: ord2ymd_def month_day_def Let_def)
    apply (simp only: a_def [symmetric] r1_def [symmetric])
    apply (simp only: b_def [symmetric] r2_def [symmetric])
    apply (simp only: c_def [symmetric] r3_def [symmetric])
    apply (simp only: d_def [symmetric] r_def [symmetric])
    apply (simp only: if_distrib [of "case_prod f" for f] prod.case split: if_splits)
    done
  show thesis
  proof (cases "d = 4 \<or> b = 4")
    case True
    have shape: "(d = 4 \<and> 0 \<le> b \<and> b \<le> 3 \<and> 0 \<le> c \<and> c \<le> 23 \<and> r = 0)
         \<or> (b = 4 \<and> c = 0 \<and> d = 0 \<and> r = 0)"
      using True e2 e3 e4 b1 b2 b3 b4 b0 c0 d0 bu cu du by linarith
    then have "n = 146097 * a + 36524 * b + 1461 * c + 365 * d + 1"
      using n by auto
    moreover have "ord2ymd n = (400 * a + 100 * b + 4 * c + d, 12, 31)"
      using True by (simp add: unfold)
    ultimately show thesis using a0 shape by (intro last_day [of a b c d]) auto
  next
    case False
    then have "b \<le> 3" "d \<le> 3" using bu du by auto
    moreover have "ord2ymd n = (case month_day (d = 3 \<and> (c \<noteq> 24 \<or> b = 3)) r of
             (m, dd) \<Rightarrow> (400 * a + 100 * b + 4 * c + d + 1, m, dd))"
      using False by (simp add: unfold add.commute add.left_commute)
    ultimately show thesis
      using n a0 b0 c0 cu d0 b4 by (intro inside [of a b c d r]) auto
  qed
qed

lemma DBM_values:
  "DAYS_BEFORE_MONTH 1 = 0" "DAYS_BEFORE_MONTH 2 = 31" "DAYS_BEFORE_MONTH 3 = 59"
  "DAYS_BEFORE_MONTH 4 = 90" "DAYS_BEFORE_MONTH 5 = 120" "DAYS_BEFORE_MONTH 6 = 151"
  "DAYS_BEFORE_MONTH 7 = 181" "DAYS_BEFORE_MONTH 8 = 212" "DAYS_BEFORE_MONTH 9 = 243"
  "DAYS_BEFORE_MONTH 10 = 273" "DAYS_BEFORE_MONTH 11 = 304" "DAYS_BEFORE_MONTH 12 = 334"
  by (simp_all add: DAYS_BEFORE_MONTH_def)

lemma DIM_values:
  "DAYS_IN_MONTH 1 = 31" "DAYS_IN_MONTH 2 = 28" "DAYS_IN_MONTH 3 = 31"
  "DAYS_IN_MONTH 4 = 30" "DAYS_IN_MONTH 5 = 31" "DAYS_IN_MONTH 6 = 30"
  "DAYS_IN_MONTH 7 = 31" "DAYS_IN_MONTH 8 = 31" "DAYS_IN_MONTH 9 = 30"
  "DAYS_IN_MONTH 10 = 31" "DAYS_IN_MONTH 11 = 30" "DAYS_IN_MONTH 12 = 31"
  by (simp_all add: DAYS_IN_MONTH_def)



lemma month_day_at:
  fixes r k :: int
  assumes "32 * k \<le> r + 50" "r + 50 < 32 * k + 32"
  shows "month_day L r =
     (if r < DAYS_BEFORE_MONTH k + (if 2 < k \<and> L then 1 else 0)
      then (k - 1, r - (DAYS_BEFORE_MONTH k + (if 2 < k \<and> L then 1 else 0)
                - (DAYS_IN_MONTH (k - 1) + (if k - 1 = 2 \<and> L then 1 else 0))) + 1)
      else (k, r - (DAYS_BEFORE_MONTH k + (if 2 < k \<and> L then 1 else 0)) + 1))"
proof -
  have "(r + 50) div 32 = k"
    using assms by (intro int_div_pos_eq [where r = "r + 50 - 32 * k"]) auto
  then show ?thesis
    by (simp only: month_day_def Let_def)
qed

lemma month_day_correct:
  fixes r :: int
  assumes "0 \<le> r" "r < 365"
  shows "month_day_ok L r (month_day L r)"
proof -
  consider "r + 50 < 64" | "64 \<le> r + 50 \<and> r + 50 < 96" | "96 \<le> r + 50 \<and> r + 50 < 128"
    | "128 \<le> r + 50 \<and> r + 50 < 160" | "160 \<le> r + 50 \<and> r + 50 < 192"
    | "192 \<le> r + 50 \<and> r + 50 < 224" | "224 \<le> r + 50 \<and> r + 50 < 256"
    | "256 \<le> r + 50 \<and> r + 50 < 288" | "288 \<le> r + 50 \<and> r + 50 < 320"
    | "320 \<le> r + 50 \<and> r + 50 < 352" | "352 \<le> r + 50 \<and> r + 50 < 384"
    | "384 \<le> r + 50"
    by linarith
  then show ?thesis
  proof cases
    case 1
    with assms have "month_day L r = (1, r + 1)"
      by (subst month_day_at [of 1]) (auto simp: DBM_values DIM_values)
    with 1 assms show ?thesis by (auto simp: month_day_ok_def DBM_values DIM_values)
  next
    case 2
    with assms show ?thesis
      by (subst month_day_at [of 2]) (auto simp: month_day_ok_def DBM_values DIM_values)
  next
    case 3
    with assms show ?thesis
      by (subst month_day_at [of 3]) (auto simp: month_day_ok_def DBM_values DIM_values)
  next
    case 4
    with assms show ?thesis
      by (subst month_day_at [of 4]) (auto simp: month_day_ok_def DBM_values DIM_values)
  next
    case 5
    with assms show ?thesis
      by (subst month_day_at [of 5]) (auto simp: month_day_ok_def DBM_values DIM_values)
  next
    case 6
    with assms show ?thesis
      by (subst month_day_at [of 6]) (auto simp: month_day_ok_def DBM_values DIM_values)
  next
    case 7
    with assms show ?thesis
      by (subst month_day_at [of 7]) (auto simp: month_day_ok_def DBM_values DIM_values)
  next
    case 8
    with assms show ?thesis
      by (subst month_day_at [of 8]) (auto simp: month_day_ok_def DBM_values DIM_values)
  next
    case 9
    with assms show ?thesis
      by (subst month_day_at [of 9]) (auto simp: month_day_ok_def DBM_values DIM_values)
  next
    case 10
    with assms show ?thesis
      by (subst month_day_at [of 10]) (auto simp: month_day_ok_def DBM_values DIM_values)
  next
    case 11
    with assms show ?thesis
      by (subst month_day_at [of 11]) (auto simp: month_day_ok_def DBM_values DIM_values)
  next
    case 12
    with assms show ?thesis
      by (subst month_day_at [of 12]) (auto simp: month_day_ok_def DBM_values DIM_values)
  qed
qed

lemma year_bound_inside:
  fixes a b c d r n :: int
  assumes "n = 146097 * a + 36524 * b + 1461 * c + 365 * d + r + 1" "n \<le> 3652059"
    "0 \<le> a" "0 \<le> b" "b \<le> 3" "0 \<le> c" "c \<le> 24" "0 \<le> d" "d \<le> 3" "0 \<le> r"
  shows "400 * a + 100 * b + 4 * c + d + 1 \<le> 9999"
proof -
  have a: "a \<le> 24" using assms by linarith
  show ?thesis
  proof (cases "a = 24")
    case False
    with a assms show ?thesis by linarith
  next
    case True
    have "\<not> (b = 3 \<and> c = 24 \<and> d = 3)" using assms True by auto
    with assms True show ?thesis by linarith
  qed
qed

lemma year_bound_last:
  fixes a b c d n :: int
  assumes "n = 146097 * a + 36524 * b + 1461 * c + 365 * d + 1" "n \<le> 3652059" "0 \<le> a"
    "(d = 4 \<and> 0 \<le> b \<and> b \<le> 3 \<and> 0 \<le> c \<and> c \<le> 23) \<or> (b = 4 \<and> c = 0 \<and> d = 0)"
  shows "400 * a + 100 * b + 4 * c + d \<le> 9999"
proof -
  have a: "a \<le> 24" using assms by linarith
  show ?thesis
  proof (cases "a = 24")
    case False
    with a assms show ?thesis by linarith
  next
    case True
    with assms show ?thesis by linarith
  qed
qed

lemma ord2ymd_ok:
  fixes n :: int
  assumes "1 \<le> n"
  shows "ymd_ok n (ord2ymd n)"
  using assms
proof (cases n rule: ord2ymd_cases)
  case (last_day a b c d)
  let ?y = "400 * a + 100 * b + 4 * c + d"
  have both: "days_before_year ?y = n - 366 \<and> is_leap ?y"
  proof (rule disjE [OF last_day(3)])
    assume h: "d = 4 \<and> 0 \<le> b \<and> b \<le> 3 \<and> 0 \<le> c \<and> c \<le> 23"
    then have y: "?y = 400 * a + 100 * b + 4 * c + 3 + 1" by simp
    have "days_before_year ?y = 146097 * a + 36524 * b + 1461 * c + 365 * 3"
      unfolding y using h by (intro days_before_year_decomp) auto
    then have 1: "days_before_year ?y = n - 366" using h last_day(1) by simp
    have "is_leap ?y = (3 = (3::int) \<and> (c \<noteq> 24 \<or> b = 3))"
      unfolding y using h by (intro is_leap_decomp) auto
    then have "is_leap ?y" using h by simp
    with 1 show ?thesis by simp
  next
    assume h: "b = 4 \<and> c = 0 \<and> d = 0"
    then have y: "?y = 400 * a + 100 * 3 + 4 * 24 + 3 + 1" by simp
    have "days_before_year ?y = 146097 * a + 36524 * 3 + 1461 * 24 + 365 * 3"
      unfolding y by (intro days_before_year_decomp) auto
    then have 1: "days_before_year ?y = n - 366" using h last_day(1) by simp
    have "is_leap ?y = (3 = (3::int) \<and> ((24::int) \<noteq> 24 \<or> 3 = (3::int)))"
      unfolding y by (intro is_leap_decomp) auto
    then have "is_leap ?y" by simp
    with 1 show ?thesis by simp
  qed
  then have dby: "days_before_year ?y = n - 366" and leap: "is_leap ?y" by simp_all
  have y1: "1 \<le> ?y" using last_day(2,3) by linarith
  have y2: "?y \<le> 9999" if "n \<le> 3652059"
    using last_day(1) that last_day(2,3) by (rule year_bound_last)
  have y3: "n \<le> 366 * ?y"
  proof (rule disjE [OF last_day(3)])
    assume "d = 4 \<and> 0 \<le> b \<and> b \<le> 3 \<and> 0 \<le> c \<and> c \<le> 23"
    with last_day(1,2) show ?thesis by simp
  next
    assume "b = 4 \<and> c = 0 \<and> d = 0"
    with last_day(1,2) show ?thesis by simp
  qed
  have "ymd2ord ?y 12 31 = n"
    by (simp add: ymd2ord_def days_before_month_def dby leap DBM_values)
  moreover have "days_in_month ?y 12 = 31"
    by (simp add: days_in_month_def DIM_values)
  ultimately show ?thesis
    using y1 y2 y3 by (simp add: ymd_ok_def last_day(4))
next
  case (inside a b c d r)
  let ?y = "400 * a + 100 * b + 4 * c + d + 1"
  let ?L = "d = 3 \<and> (c \<noteq> 24 \<or> b = 3)"
  obtain m dd where md: "month_day ?L r = (m, dd)" by (cases "month_day ?L r")
  have dby: "days_before_year ?y = 146097 * a + 36524 * b + 1461 * c + 365 * d"
    using inside by (intro days_before_year_decomp) auto
  have leap: "is_leap ?y = ?L"
    using inside by (intro is_leap_decomp) auto
  have "month_day_ok ?L r (m, dd)"
    using month_day_correct [OF inside(9,10), of ?L] unfolding md .
  then have m: "1 \<le> m" "m \<le> 12" and dd: "1 \<le> dd"
    and dim: "dd \<le> DAYS_IN_MONTH m + (if m = 2 \<and> ?L then 1 else 0)"
    and sum: "DAYS_BEFORE_MONTH m + (if 2 < m \<and> ?L then 1 else 0) + dd = r + 1"
    by (simp_all add: month_day_ok_def)
  have y1: "1 \<le> ?y" using inside by linarith
  have y2: "?y \<le> 9999" if "n \<le> 3652059"
    using that inside by (intro year_bound_inside [of n a b c d r]) auto
  have "ymd2ord ?y m dd = n"
    using sum by (simp add: ymd2ord_def days_before_month_def dby leap inside(1))
  moreover have "dd \<le> days_in_month ?y m"
    using dim by (auto simp: days_in_month_def leap DIM_values)
  moreover have "ord2ymd n = (?y, m, dd)"
    by (simp only: inside(11) md prod.case)
  moreover have "n \<le> 366 * ?y" using inside(1-10) by simp
  ultimately show ?thesis
    using y1 y2 m dd by (simp add: ymd_ok_def)
qed

subsection \<open>From a date to its string and back\<close>

lemma digit_char_table:
  "\<forall>k\<in>set [0 ..< 10]. char_digit (digit_char k) = Some k
      \<and> digit_char k \<noteq> CHR ''/'' \<and> digit_char k \<noteq> CHR ''-''"
  by (simp add: upt_rec char_digit_def digit_char_def)

lemma char_digit_digit_char: "n < 10 \<Longrightarrow> char_digit (digit_char n) = Some n"
  using digit_char_table by (simp del: upt.simps add: atLeast_upt [symmetric])

lemma digit_char_not_sep:
  "n < 10 \<Longrightarrow> digit_char n \<noteq> CHR ''/'' \<and> digit_char n \<noteq> CHR ''-''"
  using digit_char_table by (simp del: upt.simps add: atLeast_upt [symmetric])

lemma digits_value_append:
  "digits_value (xs @ ys) acc =
     (case digits_value xs acc of None \<Rightarrow> None | Some v \<Rightarrow> digits_value ys v)"
  by (induction xs arbitrary: acc) (auto split: option.splits)

lemma digits_value_dec: "digits_value (dec n) acc = Some (acc * 10 ^ length (dec n) + n)"
proof (induction n arbitrary: acc rule: dec.induct)
  case (1 n)
  show ?case
  proof (cases "n < 10")
    case True
    then show ?thesis by (simp add: dec.simps [of n] char_digit_digit_char)
  next
    case False
    have d: "dec n = dec (n div 10) @ [digit_char (n mod 10)]"
      using False by (simp add: dec.simps [of n])
    have "digits_value (dec n) acc
        = Some (10 * (acc * 10 ^ length (dec (n div 10)) + n div 10) + n mod 10)"
      using "1.IH" [OF False] by (simp add: d digits_value_append char_digit_digit_char)
    also have "10 * (acc * 10 ^ length (dec (n div 10)) + n div 10) + n mod 10
        = acc * 10 ^ length (dec n) + n"
      by (simp add: d algebra_simps)
    finally show ?thesis .
  qed
qed

lemma dec_not_Nil: "dec n \<noteq> []"
  by (subst dec.simps) simp

lemma digits_value_zeros: "digits_value (replicate k CHR ''0'' @ s) 0 = digits_value s 0"
  by (induction k) (simp_all add: char_digit_def upt_rec)

lemma parse_nat_zfill_dec: "parse_nat (zfill w (dec n)) = Some n"
  by (simp add: parse_nat_def zfill_def digits_value_zeros digits_value_dec dec_not_Nil)

lemma set_dec: "c \<in> set (dec n) \<Longrightarrow> c \<noteq> CHR ''/'' \<and> c \<noteq> CHR ''-''"
proof (induction n rule: dec.induct)
  case (1 n)
  show ?case
  proof (cases "n < 10")
    case True
    with "1.prems" show ?thesis
      using digit_char_not_sep [of n] by (simp add: dec.simps [of n])
  next
    case False
    with "1.prems" have "c \<in> set (dec (n div 10)) \<or> c = digit_char (n mod 10)"
      by (auto simp: dec.simps [of n])
    then show ?thesis
      using "1.IH" [OF False] digit_char_not_sep [of "n mod 10"] by auto
  qed
qed

lemma set_zfill_dec: "c \<in> set (zfill w (dec n)) \<Longrightarrow> c \<noteq> CHR ''/'' \<and> c \<noteq> CHR ''-''"
  using set_dec [of c n] by (auto simp: zfill_def)

lemma split_on_append:
  "sep \<notin> set a \<Longrightarrow> split_on sep (a @ sep # rest) = a # split_on sep rest"
  by (induction a) auto

lemma split_on_none: "sep \<notin> set s \<Longrightarrow> split_on sep s = [s]"
  by (induction s) auto

lemma parse_nat_dec: "parse_nat (dec n) = Some n"
  using parse_nat_zfill_dec [of 0 n] by (simp add: zfill_def)

lemma parse_date_strftime:
  assumes "valid_date dt" and "1000 \<le> year dt"
  shows "parse_date (strftime dt ''%m/%d/%Y'') = Some dt"
proof -
  let ?m = "zfill 2 (dec (month dt))" and ?d = "zfill 2 (dec (day dt))"
    and ?y = "dec (year dt)"
  have s: "strftime dt ''%m/%d/%Y'' = ?m @ CHR ''/'' # ?d @ CHR ''/'' # ?y"
    by (simp add: directive_def strftime.simps)
  have "CHR ''-'' \<notin> set ?m" "CHR ''-'' \<notin> set ?d" "CHR ''-'' \<notin> set ?y"
    using set_zfill_dec set_dec by blast+
  then have nodash: "CHR ''-'' \<notin> set (?m @ CHR ''/'' # ?d @ CHR ''/'' # ?y)"
    by simp
  have noslash: "CHR ''/'' \<notin> set ?m" "CHR ''/'' \<notin> set ?d" "CHR ''/'' \<notin> set ?y"
    using set_zfill_dec set_dec by blast+
  have 1: "split_on CHR ''-'' (?m @ CHR ''/'' # ?d @ CHR ''/'' # ?y)
      = [?m @ CHR ''/'' # ?d @ CHR ''/'' # ?y]"
    using nodash by (rule split_on_none)
  have 2: "split_on CHR ''/'' (?m @ CHR ''/'' # ?d @ CHR ''/'' # ?y) = [?m, ?d, ?y]"
    using noslash by (simp add: split_on_append split_on_none)
  have 4: "length ?y = 4"
    using assms by (intro length_dec_4) (simp_all add: valid_date_def)
  have "make_date (Some (year dt)) (Some (month dt)) (Some (day dt)) = Some dt"
    using assms by (simp add: make_date_def)
  then show ?thesis
    unfolding s parse_date_def 1 2 by (simp add: parse_nat_zfill_dec parse_nat_dec 4)
qed

section \<open>Verification: \<open>train\<close> and \<open>predict\<close>\<close>

subsection \<open>Paths, files and the two functions as equations\<close>

lemma write_file_Inr:
  "write_file fs p c = Inr fs' \<longleftrightarrow> can_write fs p \<and> fs' = fs(p \<mapsto> c)"
  by (auto simp: write_file_def can_write_def split: option.splits node.splits)

lemma write_file_can: "can_write fs p \<Longrightarrow> write_file fs p c = Inr (fs(p \<mapsto> c))"
  by (simp add: write_file_Inr)

lemma Path_plain:
  "CHR ''/'' \<notin> set s \<Longrightarrow> s \<noteq> [] \<Longrightarrow> s \<noteq> ''.'' \<Longrightarrow> Path s = PurePath [] [s]"
  by (cases s) (auto simp: Path_def path_root_def split_on_none)

lemma joinpath_plain:
  "CHR ''/'' \<notin> set s \<Longrightarrow> s \<noteq> [] \<Longrightarrow> s \<noteq> ''.'' \<Longrightarrow> joinpath p s = child p s"
  by (simp add: joinpath_def Path_plain child_def)


lemma plot_path_plain:
  "plain ticker \<Longrightarrow> plot_path cfg ticker = child (FIG_DIR cfg) (ticker @ ''_plot.png'')"
  unfolding plot_path_def plain_def
  by (rule joinpath_plain) (auto simp: append_eq_Cons_conv)

lemma components_path_plain:
  "plain ticker \<Longrightarrow>
   components_path cfg ticker = child (FIG_DIR cfg) (ticker @ ''_plot_components.png'')"
  unfolding components_path_def plain_def
  by (rule joinpath_plain) (auto simp: append_eq_Cons_conv)

lemma child_inject: "child dir a = child dir b \<longleftrightarrow> a = b"
  by (simp add: child_def)

lemma train_Inr:
  "train w cfg fs ticker = Inr fs' \<longleftrightarrow>
     (\<exists>data df. yf_download w ticker ''2020-01-01'' (strftime (TODAY cfg) ''%Y-%m-%d'') = Inr data
        \<and> prepare data = Inr df \<and> 2 \<le> length df
        \<and> can_write fs (artifact_path cfg ticker)
        \<and> fs' = fs(artifact_path cfg ticker \<mapsto> Joblib (Prophet df)))"
  by (auto simp: train_def joblib_dump_def write_file_Inr Prophet_fit_def artifact_path_def
           split: sum.splits)

lemma predict_missing:
  "fs (artifact_path cfg ticker) = None \<Longrightarrow> predict w cfg fs ticker days = Inr (fs, PyBool False)"
  by (simp add: predict_def exists_def artifact_path_def)

lemma predict_Inr:
  "fs (artifact_path cfg ticker) \<noteq> None \<Longrightarrow>
   predict w cfg fs ticker days = Inr (fs', v) \<longleftrightarrow>
     (\<exists>m future dates.
        joblib_load fs (artifact_path cfg ticker) = Inr m
        \<and> date_add (TODAY cfg) days = Inr future
        \<and> pd_date_range w ''2020-01-01'' (strftime future ''%m/%d/%Y'') = Inr dates
        \<and> dates \<noteq> []
        \<and> can_write fs (plot_path cfg ticker)
        \<and> can_write (fs(plot_path cfg ticker \<mapsto> Png (Plot m (map (forecast_row w m) dates))))
             (components_path cfg ticker)
        \<and> fs' = fs(plot_path cfg ticker \<mapsto> Png (Plot m (map (forecast_row w m) dates)),
                   components_path cfg ticker \<mapsto>
                     Png (Plot_components m (map (forecast_row w m) dates)))
        \<and> v = PyList (tail (map (forecast_row w m) dates) days))"
  by (auto simp: predict_def exists_def artifact_path_def plot_path_def components_path_def
        savefig_def write_file_Inr write_file_can Prophet_predict_def split: sum.splits if_splits)

subsection \<open>Evaluation on the sample inputs\<close>

lemmas path_eval = joinpath_def Path_def path_root_def parent_def MODEL_DIR_def FIG_DIR_def
  artifact_path_def plot_path_def components_path_def

lemma MODEL_DIR_cfg0: "MODEL_DIR cfg0 = PurePath ''/'' [''app'', ''models'']"
  by (simp add: path_eval cfg0_def)

lemma FIG_DIR_cfg0: "FIG_DIR cfg0 = PurePath ''/'' [''app'', ''figures'']"
  by (simp add: path_eval cfg0_def)

lemma artifact_AAPL: "artifact_path cfg0 ''AAPL'' = PurePath ''/'' [''app'', ''models'', ''AAPL.joblib'']"
  by (simp add: path_eval cfg0_def)

lemma artifact_MSFT: "artifact_path cfg0 ''MSFT'' = PurePath ''/'' [''app'', ''models'', ''MSFT.joblib'']"
  by (simp add: path_eval cfg0_def)


lemma prepare_w0:
  "yf_download w0 ticker start end' = Inr data \<Longrightarrow> prepare data = Inr (history new_model)"
  by (auto simp: w0_def prepare_def new_model_def)

lemma train_w0:
  "can_write fs (artifact_path cfg0 ticker) \<Longrightarrow>
   train w0 cfg0 fs ticker = Inr (fs(artifact_path cfg0 ticker \<mapsto> Joblib new_model))"
  by (simp add: train_Inr) (simp add: w0_def prepare_def new_model_def)

lemmas date_eval = toordinal_def fromordinal_def ymd2ord_def ord2ymd_def days_before_year_def
  days_before_month_def days_in_month_def DAYS_BEFORE_MONTH_def DAYS_IN_MONTH_def is_leap_def
  MAXORDINAL_def date_add_def valid_date_def in_bounds_def

lemmas text_eval = strftime.simps directive_def dec.simps zfill_def digit_char_def
  parse_date_def parse_nat_def make_date_def char_digit_def

lemma date_add_cfg0_2: "date_add (TODAY cfg0) 2 = Inr (Date 2020 1 5)"
  by (simp add: cfg0_def date_eval Let_def)

lemma strftime_ex: "strftime (Date 2020 1 5) ''%m/%d/%Y'' = ''01/05/2020''"
  by (simp add: text_eval)

lemma parse_start: "parse_date ''2020-01-01'' = Some (Date 2020 1 1)"
  by (simp add: text_eval date_eval upt_rec)

lemma parse_ex: "parse_date ''01/05/2020'' = Some (Date 2020 1 5)"
  by (simp add: text_eval date_eval upt_rec)

lemma range_ex: "pd_date_range w ''2020-01-01'' ''01/05/2020''
   = Inr [Date 2020 1 1, Date 2020 1 2, Date 2020 1 3, Date 2020 1 4, Date 2020 1 5]"
  by (simp add: pd_date_range_def to_datetime_def parse_start parse_ex)
    (simp add: date_eval Let_def upto.simps)

lemma plot_MSFT: "plot_path cfg0 ''MSFT'' = PurePath ''/'' [''app'', ''figures'', ''MSFT_plot.png'']"
  by (simp add: path_eval cfg0_def)

lemma components_MSFT:
  "components_path cfg0 ''MSFT'' = PurePath ''/'' [''app'', ''figures'', ''MSFT_plot_components.png'']"
  by (simp add: path_eval cfg0_def)

lemma set_tail: "set (tail xs n) \<subseteq> set xs"
  by (auto simp: tail_def dest: in_set_dropD)

lemma joblib_load_Joblib: "fs p = Some (Joblib m) \<Longrightarrow> joblib_load fs p = Inr m"
  by (simp add: joblib_load_def)

lemma predict_artifact:
  assumes "fs (artifact_path cfg ticker) = Some (Joblib m)"
    and "predict w cfg fs ticker days = Inr (fs', v)"
  shows "\<exists>dates. dates \<noteq> []
     \<and> fs' = fs(plot_path cfg ticker \<mapsto> Png (Plot m (map (forecast_row w m) dates)),
               components_path cfg ticker \<mapsto> Png (Plot_components m (map (forecast_row w m) dates)))
     \<and> v = PyList (tail (map (forecast_row w m) dates) days)"
proof -
  have ex: "fs (artifact_path cfg ticker) \<noteq> None" using assms(1) by simp
  have load: "joblib_load fs (artifact_path cfg ticker) = Inr m"
    using assms(1) by (simp add: joblib_load_def)
  from assms(2) show ?thesis
    unfolding predict_Inr [where fs = fs and cfg = cfg and ticker = ticker, OF ex] load by auto
qed

lemma predict_w0_2:
  assumes m: "fs (artifact_path cfg0 ''MSFT'') = Some (Joblib m)"
    and w1: "can_write fs (plot_path cfg0 ''MSFT'')"
    and w2: "can_write fs (components_path cfg0 ''MSFT'')"
  shows "\<exists>fs'. predict w0 cfg0 fs ''MSFT'' 2 =
      Inr (fs', PyList [forecast_row w0 m (Date 2020 1 4), forecast_row w0 m (Date 2020 1 5)])"
proof -
  let ?dates = "[Date 2020 1 1, Date 2020 1 2, Date 2020 1 3, Date 2020 1 4, Date 2020 1 5]"
  have ex: "fs (artifact_path cfg0 ''MSFT'') \<noteq> None" using m by simp
  have w2': "can_write (fs(plot_path cfg0 ''MSFT'' \<mapsto> Png (Plot m (map (forecast_row w0 m) ?dates))))
      (components_path cfg0 ''MSFT'')"
    using w2 by (simp add: can_write_def plot_MSFT components_MSFT parent_def)
  have t: "tail (map (forecast_row w0 m) ?dates) 2
      = [forecast_row w0 m (Date 2020 1 4), forecast_row w0 m (Date 2020 1 5)]"
    by (simp add: tail_def)
  have load: "joblib_load fs (artifact_path cfg0 ''MSFT'') = Inr m"
    using m by (simp add: joblib_load_def)
  have r: "pd_date_range w0 ''2020-01-01'' (strftime (Date 2020 1 5) ''%m/%d/%Y'') = Inr ?dates"
    by (simp only: strftime_ex range_ex)
  show ?thesis
    unfolding predict_Inr [where fs = fs and cfg = cfg0 and ticker = "''MSFT''", OF ex]
    using load date_add_cfg0_2 r w1 w2' t
    by simp
qed

lemma date_add_cfg0_7: "date_add (TODAY cfg0) 7 = Inr (Date 2020 1 10)"
  by (simp add: cfg0_def date_eval Let_def)

lemma range_ex7: "pd_date_range w ''2020-01-01'' (strftime (Date 2020 1 10) ''%m/%d/%Y'')
   = Inr [Date 2020 1 1, Date 2020 1 2, Date 2020 1 3, Date 2020 1 4, Date 2020 1 5,
          Date 2020 1 6, Date 2020 1 7, Date 2020 1 8, Date 2020 1 9, Date 2020 1 10]"
proof -
  have s: "strftime (Date 2020 1 10) ''%m/%d/%Y'' = ''01/10/2020''"
    by (simp add: text_eval)
  have p: "parse_date ''01/10/2020'' = Some (Date 2020 1 10)"
    by (simp add: text_eval date_eval upt_rec)
  show ?thesis
    unfolding s
    by (simp add: pd_date_range_def to_datetime_def parse_start p)
      (simp add: date_eval Let_def upto.simps)
qed

lemma predict_w0_7:
  assumes m: "fs (artifact_path cfg0 ''MSFT'') = Some (Joblib m)"
    and w1: "can_write fs (plot_path cfg0 ''MSFT'')"
    and w2: "can_write fs (components_path cfg0 ''MSFT'')"
  shows "\<exists>fs'. predict w0 cfg0 fs ''MSFT'' 7 =
      Inr (fs', PyList (map (forecast_row w0 m)
        [Date 2020 1 4, Date 2020 1 5, Date 2020 1 6, Date 2020 1 7, Date 2020 1 8,
         Date 2020 1 9, Date 2020 1 10]))"
proof -
  let ?dates = "[Date 2020 1 1, Date 2020 1 2, Date 2020 1 3, Date 2020 1 4, Date 2020 1 5,
          Date 2020 1 6, Date 2020 1 7, Date 2020 1 8, Date 2020 1 9, Date 2020 1 10]"
  have ex: "fs (artifact_path cfg0 ''MSFT'') \<noteq> None" using m by simp
  have w2': "can_write (fs(plot_path cfg0 ''MSFT'' \<mapsto> Png (Plot m (map (forecast_row w0 m) ?dates))))
      (components_path cfg0 ''MSFT'')"
    using w2 by (simp add: can_write_def plot_MSFT components_MSFT parent_def)
  have t: "tail (map (forecast_row w0 m) ?dates) 7
      = map (forecast_row w0 m)
        [Date 2020 1 4, Date 2020 1 5, Date 2020 1 6, Date 2020 1 7, Date 2020 1 8,
         Date 2020 1 9, Date 2020 1 10]"
    by (simp add: tail_def)
  have load: "joblib_load fs (artifact_path cfg0 ''MSFT'') = Inr m"
    using m by (simp add: joblib_load_def)
  show ?thesis
    unfolding predict_Inr [where fs = fs and cfg = cfg0 and ticker = "''MSFT''", OF ex]
    using load date_add_cfg0_7 range_ex7 w1 w2' t
    by simp
qed

subsection \<open>\<open>predict\<close> on a saved model: the grid, the forecast, the files\<close>

lemma toordinal_fromordinal: "1 \<le> n \<Longrightarrow> toordinal (fromordinal n) = n"
  using ord2ymd_ok [of n]
  by (auto simp: ymd_ok_def toordinal_def fromordinal_def split: prod.splits)

lemma valid_fromordinal: "1 \<le> n \<Longrightarrow> n \<le> 3652059 \<Longrightarrow> valid_date (fromordinal n)"
  using ord2ymd_ok [of n]
  by (auto simp: ymd_ok_def valid_date_def fromordinal_def split: prod.splits)

lemma toordinal_values:
  "toordinal (Date 2020 1 1) = 737425" "toordinal (Date 1677 9 22) = 612412"
  "toordinal (Date 2262 4 11) = 825914"
  by (simp_all add: date_eval)

lemma date_add_Inr:
  "(date_add dt days = Inr future) =
     (\<bar>days\<bar> \<le> 999999999 \<and> 0 < toordinal dt + days \<and> toordinal dt + days \<le> 3652059
      \<and> future = fromordinal (toordinal dt + days))"
  by (auto simp: date_add_def MAXORDINAL_def Let_def)

lemma in_bounds_iff: "in_bounds dt = (612412 \<le> toordinal dt \<and> toordinal dt \<le> 825914)"
  by (simp only: in_bounds_def toordinal_values)

lemma year_fromordinal: "365635 \<le> n \<Longrightarrow> 1000 \<le> year (fromordinal n)"
  using ord2ymd_ok [of n]
  by (auto simp: ymd_ok_def fromordinal_def split: prod.splits)

lemma pd_date_range_grid:
  assumes "1 \<le> n" "n \<le> 3652059" "1000 \<le> year (fromordinal n)"
  shows "pd_date_range w ''2020-01-01'' (strftime (fromordinal n) ''%m/%d/%Y'') =
     (if 612412 \<le> n \<and> n \<le> 825914 then Inr (map fromordinal [737425 .. n])
      else Inl OutOfBoundsDatetime)"
proof -
  have p: "parse_date (strftime (fromordinal n) ''%m/%d/%Y'') = Some (fromordinal n)"
    using assms by (intro parse_date_strftime valid_fromordinal)
  have t: "toordinal (fromordinal n) = n"
    using assms by (intro toordinal_fromordinal)
  have "pd_date_range w ''2020-01-01'' (strftime (fromordinal n) ''%m/%d/%Y'') =
     (if in_bounds (Date 2020 1 1) \<and> in_bounds (fromordinal n)
      then Inr (map fromordinal [toordinal (Date 2020 1 1) .. toordinal (fromordinal n)])
      else Inl OutOfBoundsDatetime)"
    by (simp only: pd_date_range_def to_datetime_def parse_start p option.case sum.case)
  also have "\<dots> = (if 612412 \<le> n \<and> n \<le> 825914 then Inr (map fromordinal [737425 .. n])
      else Inl OutOfBoundsDatetime)"
    by (simp only: in_bounds_iff toordinal_values t) simp
  finally show ?thesis .
qed



lemma can_write_after:
  "can_write fs p \<Longrightarrow> can_write fs q \<Longrightarrow> can_write (fs(p \<mapsto> Png x)) q"
  by (auto simp: can_write_def)

lemma joblib_load_Inr: "(joblib_load fs p = Inr m) = (fs p = Some (Joblib m))"
  by (auto simp: joblib_load_def split: option.splits node.splits)

lemma predict_steps:
  assumes "fs (artifact_path cfg ticker) = Some (Joblib m)"
    and "date_add (TODAY cfg) days = Inr future"
    and "pd_date_range w ''2020-01-01'' (strftime future ''%m/%d/%Y'') = Inr dates"
    and "dates \<noteq> []"
  shows "predict w cfg fs ticker days =
     (case savefig fs (Plot m (map (forecast_row w m) dates)) (plot_path cfg ticker) of
        Inl e \<Rightarrow> Inl e
      | Inr fs1 \<Rightarrow>
     (case savefig fs1 (Plot_components m (map (forecast_row w m) dates))
             (components_path cfg ticker) of
        Inl e \<Rightarrow> Inl e
      | Inr fs2 \<Rightarrow> Inr (fs2, PyList (tail (map (forecast_row w m) dates) days))))"
  using assms unfolding artifact_path_def plot_path_def components_path_def
  by (simp add: predict_def exists_def joblib_load_def Prophet_predict_def)

lemma predict_grid:
  assumes a: "fs (artifact_path cfg ticker) \<noteq> None"
    and p: "predict w cfg fs ticker days = Inr (fs', v)"
    and yr: "1000 \<le> year (fromordinal (toordinal (TODAY cfg) + days))"
  shows "\<exists>m. fs (artifact_path cfg ticker) = Some (Joblib m)
     \<and> 737425 \<le> toordinal (TODAY cfg) + days \<and> toordinal (TODAY cfg) + days \<le> 825914
     \<and> can_write fs (plot_path cfg ticker)
     \<and> fs' = fs(plot_path cfg ticker \<mapsto> Png (Plot m (map (forecast_row w m)
                   (map fromordinal [737425 .. toordinal (TODAY cfg) + days]))),
                components_path cfg ticker \<mapsto> Png (Plot_components m (map (forecast_row w m)
                   (map fromordinal [737425 .. toordinal (TODAY cfg) + days]))))
     \<and> v = PyList (tail (map (forecast_row w m)
                   (map fromordinal [737425 .. toordinal (TODAY cfg) + days])) days)"
proof -
  let ?n = "toordinal (TODAY cfg) + days"
  from p obtain m future dates
    where m: "joblib_load fs (artifact_path cfg ticker) = Inr m"
      and f: "date_add (TODAY cfg) days = Inr future"
      and r: "pd_date_range w ''2020-01-01'' (strftime future ''%m/%d/%Y'') = Inr dates"
      and ne: "dates \<noteq> []"
      and cw: "can_write fs (plot_path cfg ticker)"
      and fs': "fs' = fs(plot_path cfg ticker \<mapsto> Png (Plot m (map (forecast_row w m) dates)),
                   components_path cfg ticker \<mapsto>
                     Png (Plot_components m (map (forecast_row w m) dates)))"
      and v: "v = PyList (tail (map (forecast_row w m) dates) days)"
    unfolding predict_Inr [where fs = fs and cfg = cfg and ticker = ticker, OF a] by blast
  from f have n: "0 < ?n" "?n \<le> 3652059" and future: "future = fromordinal ?n"
    by (simp_all add: date_add_Inr)
  from n have n1: "1 \<le> ?n" by simp
  from r have b: "612412 \<le> ?n \<and> ?n \<le> 825914" and dates: "dates = map fromordinal [737425 .. ?n]"
    unfolding future pd_date_range_grid [OF n1 n(2) yr] by (simp_all split: if_splits)
  from ne have "737425 \<le> ?n" by (simp add: dates)
  with m b cw show ?thesis
    unfolding fs' v dates by (simp add: joblib_load_Inr)
qed

lemma predict_succeeds:
  assumes m: "fs (artifact_path cfg ticker) = Some (Joblib m)"
    and d: "\<bar>days\<bar> \<le> 999999999"
    and lo: "737425 \<le> toordinal (TODAY cfg) + days"
    and hi: "toordinal (TODAY cfg) + days \<le> 825914"
    and w1: "can_write fs (plot_path cfg ticker)"
    and w2: "can_write fs (components_path cfg ticker)"
  shows "predict w cfg fs ticker days =
     Inr (fs(plot_path cfg ticker \<mapsto> Png (Plot m (map (forecast_row w m)
                   (map fromordinal [737425 .. toordinal (TODAY cfg) + days]))),
             components_path cfg ticker \<mapsto> Png (Plot_components m (map (forecast_row w m)
                   (map fromordinal [737425 .. toordinal (TODAY cfg) + days])))),
          PyList (tail (map (forecast_row w m)
                   (map fromordinal [737425 .. toordinal (TODAY cfg) + days])) days))"
proof -
  let ?n = "toordinal (TODAY cfg) + days"
  let ?dates = "map fromordinal [737425 .. ?n]"
  have f: "date_add (TODAY cfg) days = Inr (fromordinal ?n)"
    using d lo hi by (simp add: date_add_Inr)
  have "1000 \<le> year (fromordinal ?n)"
    using lo by (intro year_fromordinal) simp
  then have r: "pd_date_range w ''2020-01-01'' (strftime (fromordinal ?n) ''%m/%d/%Y'')
      = Inr ?dates"
    using lo hi by (subst pd_date_range_grid) simp_all
  have ne: "?dates \<noteq> []" using lo by simp
  have w2': "can_write (fs(plot_path cfg ticker \<mapsto> Png (Plot m (map (forecast_row w m) ?dates))))
      (components_path cfg ticker)"
    using w1 w2 by (rule can_write_after)
  show ?thesis
    unfolding predict_steps [where fs = fs and cfg = cfg and ticker = ticker, OF m f r ne]
      savefig_def
    by (simp only: write_file_can [OF w1] write_file_can [OF w2'] sum.case)
qed

lemma map_toordinal_fromordinal:
  "1 \<le> i \<Longrightarrow> map (\<lambda>n. toordinal (fromordinal n)) [i .. j] = [i .. j]"
  by (rule map_idI) (simp add: toordinal_fromordinal)

lemma ds_forecast_row: "ds (forecast_row w m d) = d"
  by (simp add: forecast_row_def)

lemma today_cfg0: "toordinal (TODAY cfg0) = 737427"
  by (simp add: cfg0_def date_eval)





lemma fromordinal_start: "fromordinal 737425 = Date 2020 1 1"
  by (simp add: date_eval Let_def)

lemma hd_grid: "737425 \<le> n \<Longrightarrow> hd (map fromordinal [737425 .. n]) = Date 2020 1 1"
  by (simp add: upto_rec1 [of 737425 n] fromordinal_start)

lemma figure_paths_differ:
  "plain ticker \<Longrightarrow> plot_path cfg ticker \<noteq> components_path cfg ticker"
  by (simp add: plot_path_plain components_path_plain child_inject)

lemma paths_tmp:
  "artifact_path cfg0 ''/tmp/x'' = PurePath ''/'' [''tmp'', ''x.joblib'']"
  "plot_path cfg0 ''/tmp/x'' = PurePath ''/'' [''tmp'', ''x_plot.png'']"
  "components_path cfg0 ''/tmp/x'' = PurePath ''/'' [''tmp'', ''x_plot_components.png'']"
  by (simp_all add: path_eval cfg0_def)

subsection \<open>The claims on \<open>train\<close> and \<open>predict\<close>\<close>

text \<open>
  Claim C1. With no model file for the ticker, \<open>predict\<close> does not raise, but what it
  returns is \<open>False\<close>, not the \<open>None\<close> that its docstring and its return type
  \<open>Optional\<close> announce: here for \<open>AAPL\<close> on a disk with no model file.
\<close>

theorem predict_without_artifact_returns_False:
  "fs0 (artifact_path cfg0 ''AAPL'') = None
   \<and> predict w0 cfg0 fs0 ''AAPL'' 7 = Inr (fs0, PyBool False)
   \<and> PyBool False \<noteq> PyNone"
proof -
  have "fs0 (artifact_path cfg0 ''AAPL'') = None"
    by (simp add: artifact_AAPL fs0_def)
  then show ?thesis by (simp add: predict_missing)
qed




text \<open>
  Claim C6. When a ticker has a saved model and \<open>train\<close> runs again and returns, the
  model file holds the model fitted to the prices just downloaded; loading the file gives
  that model, and every \<open>predict\<close> that then returns has drawn and returned the rows
  this model predicts.
\<close>

theorem retrain_replaces_artifact:
  assumes "fs (artifact_path cfg ticker) = Some (Joblib old)"
    and "train w cfg fs ticker = Inr fs1"
  shows "\<exists>data df.
       yf_download w ticker ''2020-01-01'' (strftime (TODAY cfg) ''%Y-%m-%d'') = Inr data
     \<and> prepare data = Inr df
     \<and> fs1 (artifact_path cfg ticker) = Some (Joblib (Prophet df))
     \<and> joblib_load fs1 (artifact_path cfg ticker) = Inr (Prophet df)
     \<and> (\<forall>days fs2 v. predict w cfg fs1 ticker days = Inr (fs2, v) \<longrightarrow>
           (\<exists>forecast.
               fs2 (components_path cfg ticker) = Some (Png (Plot_components (Prophet df) forecast))
             \<and> v = PyList (tail forecast days)
             \<and> (\<forall>r\<in>set forecast. r = forecast_row w (Prophet df) (ds r))))"
proof -
  from assms(2) obtain data df
    where d: "yf_download w ticker ''2020-01-01'' (strftime (TODAY cfg) ''%Y-%m-%d'') = Inr data"
      and p: "prepare data = Inr df"
      and fs1: "fs1 = fs(artifact_path cfg ticker \<mapsto> Joblib (Prophet df))"
    by (auto simp: train_Inr)
  have a: "fs1 (artifact_path cfg ticker) = Some (Joblib (Prophet df))"
    by (simp add: fs1)
  have "\<exists>forecast.
               fs2 (components_path cfg ticker) = Some (Png (Plot_components (Prophet df) forecast))
             \<and> v = PyList (tail forecast days)
             \<and> (\<forall>r\<in>set forecast. r = forecast_row w (Prophet df) (ds r))"
    if "predict w cfg fs1 ticker days = Inr (fs2, v)" for days fs2 v
  proof -
    from predict_artifact [where fs = fs1, OF a that] obtain dates
      where "fs2 = fs1(plot_path cfg ticker \<mapsto> Png (Plot (Prophet df) (map (forecast_row w (Prophet df)) dates)),
               components_path cfg ticker \<mapsto> Png (Plot_components (Prophet df) (map (forecast_row w (Prophet df)) dates)))"
        and "v = PyList (tail (map (forecast_row w (Prophet df)) dates) days)"
      by blast
    then show ?thesis
      by (intro exI [of _ "map (forecast_row w (Prophet df)) dates"]) (auto simp: forecast_row_def)
  qed
  moreover have "joblib_load fs1 (artifact_path cfg ticker) = Inr (Prophet df)"
    using a by (simp add: joblib_load_def)
  ultimately show ?thesis using d p a by blast
qed

text \<open>
  The witness of C6: on a disk holding an older model for \<open>MSFT\<close>, training replaces it
  with another model, and the forecast for two days is the one of the new model.
\<close>

theorem retrain_replaces_artifact_witness:
  "fs_msft (artifact_path cfg0 ''MSFT'') = Some (Joblib old_model)
   \<and> new_model \<noteq> old_model
   \<and> (\<exists>fs1. train w0 cfg0 fs_msft ''MSFT'' = Inr fs1
         \<and> joblib_load fs1 (artifact_path cfg0 ''MSFT'') = Inr new_model
         \<and> (\<exists>fs2. predict w0 cfg0 fs1 ''MSFT'' 2 =
               Inr (fs2, PyList [forecast_row w0 new_model (Date 2020 1 4),
                                 forecast_row w0 new_model (Date 2020 1 5)])))"
proof -
  let ?fs1 = "fs_msft(artifact_path cfg0 ''MSFT'' \<mapsto> Joblib new_model)"
  have old: "fs_msft (artifact_path cfg0 ''MSFT'') = Some (Joblib old_model)"
    by (simp add: artifact_MSFT fs_msft_def)
  have "can_write fs_msft (artifact_path cfg0 ''MSFT'')"
    by (simp add: can_write_def artifact_MSFT fs_msft_def fs0_def parent_def)
  then have t: "train w0 cfg0 fs_msft ''MSFT'' = Inr ?fs1"
    by (rule train_w0)
  from retrain_replaces_artifact [OF old t] prepare_w0
  have load: "joblib_load ?fs1 (artifact_path cfg0 ''MSFT'') = Inr new_model"
    by (auto simp: new_model_def)
  have "\<exists>fs2. predict w0 cfg0 ?fs1 ''MSFT'' 2 =
               Inr (fs2, PyList [forecast_row w0 new_model (Date 2020 1 4),
                                 forecast_row w0 new_model (Date 2020 1 5)])"
    by (rule predict_w0_2)
      (simp_all add: can_write_def artifact_MSFT plot_MSFT components_MSFT fs_msft_def fs0_def
         parent_def)
  with old t load show ?thesis
    by (simp add: new_model_def old_model_def)
qed




text \<open>
  Claim C8 does not hold for every ticker and every horizon. A ticker that starts with a
  slash is an absolute path for \<open>joinpath\<close>, which then drops the figures directory:
  with a model file \<open>/tmp/x.joblib\<close>, \<open>predict\<close> for the ticker \<open>/tmp/x\<close> returns
  normally and writes its two images into \<open>/tmp\<close>; nothing in the figures directory
  changes. And a horizon that takes \<open>TODAY + days\<close> before the year 1000 gives a date that
  \<open>strftime\<close> prints with a short year: from 2020-01-03, \<open>days = -719527\<close> is 0050-01-03,
  printed \<open>01/03/50\<close>; with a parser that reads this as 2050-01-03, \<open>predict\<close> for
  \<open>MSFT\<close> returns normally, and the grid it draws ends on 2050-01-03 (ordinal 748385),
  not on \<open>TODAY + days\<close> (ordinal 17900).
\<close>

theorem predict_writes_outside_figures:
  "fs_tmp (artifact_path cfg0 ''/tmp/x'') \<noteq> None
   \<and> (\<exists>fs' v. predict w0 cfg0 fs_tmp ''/tmp/x'' 2 = Inr (fs', v)
         \<and> fs_tmp (PurePath ''/'' [''tmp'', ''x_plot.png'']) = None
         \<and> fs' (PurePath ''/'' [''tmp'', ''x_plot.png'']) \<noteq> None
         \<and> fs' (PurePath ''/'' [''tmp'', ''x_plot_components.png'']) \<noteq> None
         \<and> (\<forall>name. fs' (child (FIG_DIR cfg0) name) = fs_tmp (child (FIG_DIR cfg0) name)))
   \<and> plain ''MSFT'' \<and> fs_msft (artifact_path cfg0 ''MSFT'') \<noteq> None
   \<and> toordinal (TODAY cfg0) + (- 719527) = 17900
   \<and> (\<exists>fs'. predict w_guess cfg0 fs_msft ''MSFT'' (- 719527) = Inr (fs', PyList [])
         \<and> fs' (plot_path cfg0 ''MSFT'')
             = Some (Png (Plot old_model (map (forecast_row w_guess old_model)
                  (map fromordinal [737425 .. 748385])))))"
proof -
  have a: "fs_tmp (artifact_path cfg0 ''/tmp/x'') = Some (Joblib new_model)"
    by (simp add: paths_tmp fs_tmp_def)
  have w1: "can_write fs_tmp (plot_path cfg0 ''/tmp/x'')"
    and w2: "can_write fs_tmp (components_path cfg0 ''/tmp/x'')"
    by (simp_all add: can_write_def paths_tmp fs_tmp_def fs0_def parent_def)
  let ?forecast = "map (forecast_row w0 new_model)
      (map fromordinal [737425 .. toordinal (TODAY cfg0) + 2])"
  let ?fs' = "fs_tmp(plot_path cfg0 ''/tmp/x'' \<mapsto> Png (Plot new_model ?forecast),
                    components_path cfg0 ''/tmp/x'' \<mapsto> Png (Plot_components new_model ?forecast))"
  have p: "predict w0 cfg0 fs_tmp ''/tmp/x'' 2 = Inr (?fs', PyList (tail ?forecast 2))"
    using a w1 w2 by (intro predict_succeeds) (simp_all add: today_cfg0)
  have none: "fs_tmp (PurePath ''/'' [''tmp'', ''x_plot.png'']) = None"
    by (simp add: fs_tmp_def fs0_def)
  have f1: "?fs' (PurePath ''/'' [''tmp'', ''x_plot.png'']) \<noteq> None"
    by (simp add: paths_tmp)
  have f2: "?fs' (PurePath ''/'' [''tmp'', ''x_plot_components.png'']) \<noteq> None"
    by (simp add: paths_tmp)
  have fig: "?fs' (child (FIG_DIR cfg0) name) = fs_tmp (child (FIG_DIR cfg0) name)" for name
    by (simp add: paths_tmp child_def FIG_DIR_cfg0)
  from a p none f1 f2 fig have tmp: "fs_tmp (artifact_path cfg0 ''/tmp/x'') \<noteq> None
   \<and> (\<exists>fs' v. predict w0 cfg0 fs_tmp ''/tmp/x'' 2 = Inr (fs', v)
         \<and> fs_tmp (PurePath ''/'' [''tmp'', ''x_plot.png'']) = None
         \<and> fs' (PurePath ''/'' [''tmp'', ''x_plot.png'']) \<noteq> None
         \<and> fs' (PurePath ''/'' [''tmp'', ''x_plot_components.png'']) \<noteq> None
         \<and> (\<forall>name. fs' (child (FIG_DIR cfg0) name) = fs_tmp (child (FIG_DIR cfg0) name)))"
    by auto
  have pl: "plain ''MSFT''" by (simp add: plain_def)
  have m: "fs_msft (artifact_path cfg0 ''MSFT'') = Some (Joblib old_model)"
    by (simp add: artifact_MSFT fs_msft_def)
  have n: "toordinal (TODAY cfg0) + (- 719527) = 17900"
    by (simp add: today_cfg0)
  have "fromordinal 17900 = Date 50 1 3"
    by (simp add: date_eval Let_def)
  then have d: "date_add (TODAY cfg0) (- 719527) = Inr (Date 50 1 3)"
    by (simp add: date_add_Inr today_cfg0)
  have k: "strftime (Date 50 1 3) ''%m/%d/%Y'' = ''01/03/50''"
    by (simp add: text_eval)
  have e: "to_datetime w_guess ''01/03/50'' = Inr (Date 2050 1 3)"
    by (simp add: to_datetime_def text_eval w_guess_def)
  have o: "toordinal (Date 2050 1 3) = 748385"
    by (simp add: date_eval)
  have "pd_date_range w_guess ''2020-01-01'' ''01/03/50''
      = (if in_bounds (Date 2020 1 1) \<and> in_bounds (Date 2050 1 3)
         then Inr (map fromordinal [toordinal (Date 2020 1 1) .. toordinal (Date 2050 1 3)])
         else Inl OutOfBoundsDatetime)"
    by (simp only: pd_date_range_def to_datetime_def parse_start e [unfolded to_datetime_def]
          option.case sum.case)
  then have r: "pd_date_range w_guess ''2020-01-01'' (strftime (Date 50 1 3) ''%m/%d/%Y'')
      = Inr (map fromordinal [737425 .. 748385])"
    by (simp only: k in_bounds_iff toordinal_values o) (simp del: upto_rec_numeral)
  have ne: "map fromordinal [737425 .. (748385::int)] \<noteq> []"
    by (simp del: upto_rec_numeral)
  let ?old = "map (forecast_row w_guess old_model) (map fromordinal [737425 .. 748385])"
  have c1: "can_write fs_msft (plot_path cfg0 ''MSFT'')"
    and c2: "can_write fs_msft (components_path cfg0 ''MSFT'')"
    by (simp_all add: can_write_def plot_MSFT components_MSFT fs_msft_def fs0_def parent_def)
  have c2': "can_write (fs_msft(plot_path cfg0 ''MSFT'' \<mapsto> Png (Plot old_model ?old)))
      (components_path cfg0 ''MSFT'')"
    using c1 c2 by (rule can_write_after)
  have t: "tail ?old (- 719527) = []"
    by (simp add: tail_def del: upto_rec_numeral)
  have "predict w_guess cfg0 fs_msft ''MSFT'' (- 719527)
      = Inr (fs_msft(plot_path cfg0 ''MSFT'' \<mapsto> Png (Plot old_model ?old),
                     components_path cfg0 ''MSFT'' \<mapsto> Png (Plot_components old_model ?old)),
             PyList [])"
    unfolding predict_steps [where fs = fs_msft and cfg = cfg0 and ticker = "''MSFT''"
        and w = w_guess, OF m d r ne] savefig_def
    by (simp only: write_file_can [OF c1] write_file_can [OF c2'] sum.case t)
  moreover have "(fs_msft(plot_path cfg0 ''MSFT'' \<mapsto> Png (Plot old_model ?old),
                     components_path cfg0 ''MSFT'' \<mapsto> Png (Plot_components old_model ?old)))
        (plot_path cfg0 ''MSFT'') = Some (Png (Plot old_model ?old))"
    by (simp add: plot_MSFT components_MSFT del: upto_rec_numeral)
  ultimately have short: "\<exists>fs'. predict w_guess cfg0 fs_msft ''MSFT'' (- 719527)
        = Inr (fs', PyList [])
      \<and> fs' (plot_path cfg0 ''MSFT'') = Some (Png (Plot old_model ?old))"
    by (intro exI conjI) assumption+
  from m have m': "fs_msft (artifact_path cfg0 ''MSFT'') \<noteq> None" by simp
  from tmp pl m' n short show ?thesis
    by (intro conjI) (assumption | erule conjunct1 | erule conjunct2)+
qed

text \<open>
  Claim C8, amended. For a ticker with no path separator in it and with a model file,
  and a horizon for which \<open>TODAY + days\<close> is a date of the year 1000 or later (so that its
  year is printed on four digits), a \<open>predict\<close> that returns normally has loaded the
  model of that file, built the grid
  of all days from 2020-01-01 to \<open>TODAY + days\<close> (consecutive ordinals, not empty,
  starting on 2020-01-01), predicted one row for every day of the grid, and written two
  files and no other: \<open>ticker_plot.png\<close> and \<open>ticker_plot_components.png\<close> in the
  figures directory, two different paths, each an image of the model and of the forecast
  over the whole grid. It returns the tail of that forecast.
\<close>

theorem predict_success_path:
  assumes "plain ticker"
    and "fs (artifact_path cfg ticker) \<noteq> None"
    and "predict w cfg fs ticker days = Inr (fs', v)"
    and "1000 \<le> year (fromordinal (toordinal (TODAY cfg) + days))"
  shows "\<exists>m grid forecast.
       fs (artifact_path cfg ticker) = Some (Joblib m)
     \<and> grid = map fromordinal [toordinal (Date 2020 1 1) .. toordinal (TODAY cfg) + days]
     \<and> grid \<noteq> [] \<and> hd grid = Date 2020 1 1
     \<and> map toordinal grid = [toordinal (Date 2020 1 1) .. toordinal (TODAY cfg) + days]
     \<and> forecast = map (forecast_row w m) grid
     \<and> map ds forecast = grid
     \<and> plot_path cfg ticker = child (FIG_DIR cfg) (ticker @ ''_plot.png'')
     \<and> components_path cfg ticker = child (FIG_DIR cfg) (ticker @ ''_plot_components.png'')
     \<and> plot_path cfg ticker \<noteq> components_path cfg ticker
     \<and> fs' (plot_path cfg ticker) = Some (Png (Plot m forecast))
     \<and> fs' (components_path cfg ticker) = Some (Png (Plot_components m forecast))
     \<and> (\<forall>p. p \<noteq> plot_path cfg ticker \<and> p \<noteq> components_path cfg ticker \<longrightarrow> fs' p = fs p)
     \<and> v = PyList (tail forecast days)"
proof -
  let ?n = "toordinal (TODAY cfg) + days"
  let ?grid = "map fromordinal [737425 .. ?n]"
  from predict_grid [where fs = fs, OF assms(2,3,4)] obtain m
    where m: "fs (artifact_path cfg ticker) = Some (Joblib m)"
      and lo: "737425 \<le> ?n"
      and fs': "fs' = fs(plot_path cfg ticker \<mapsto> Png (Plot m (map (forecast_row w m) ?grid)),
                components_path cfg ticker \<mapsto> Png (Plot_components m (map (forecast_row w m) ?grid)))"
      and v: "v = PyList (tail (map (forecast_row w m) ?grid) days)"
    by blast
  have g: "?grid = map fromordinal [toordinal (Date 2020 1 1) .. ?n]"
    by (simp only: toordinal_values)
  have ne: "?grid \<noteq> []" using lo by simp
  have hd: "hd ?grid = Date 2020 1 1" using lo by (rule hd_grid)
  have "map toordinal ?grid = map (\<lambda>n. toordinal (fromordinal n)) [737425 .. ?n]"
    by (simp add: comp_def)
  also have "\<dots> = [737425 .. ?n]"
    by (rule map_toordinal_fromordinal) simp
  finally have ords: "map toordinal ?grid = [toordinal (Date 2020 1 1) .. ?n]"
    by (simp only: toordinal_values)
  have dsf: "map ds (map (forecast_row w m) ?grid) = ?grid"
    by (simp add: comp_def ds_forecast_row)
  have diff: "plot_path cfg ticker \<noteq> components_path cfg ticker"
    using assms(1) by (rule figure_paths_differ)
  have f1: "fs' (plot_path cfg ticker) = Some (Png (Plot m (map (forecast_row w m) ?grid)))"
    using diff by (simp add: fs')
  have f2: "fs' (components_path cfg ticker)
      = Some (Png (Plot_components m (map (forecast_row w m) ?grid)))"
    by (simp add: fs')
  have frame: "\<forall>p. p \<noteq> plot_path cfg ticker \<and> p \<noteq> components_path cfg ticker \<longrightarrow> fs' p = fs p"
    by (simp add: fs')
  show ?thesis
    using m g ne hd ords dsf plot_path_plain [OF assms(1), of cfg]
      components_path_plain [OF assms(1), of cfg] diff f1 f2 frame v
    by (intro exI [of _ m] exI [of _ ?grid] exI [of _ "map (forecast_row w m) ?grid"] conjI)
      (assumption | rule refl)+
qed

text \<open>
  The witness of C8: for \<open>MSFT\<close> on 2020-01-03 with a horizon of two days (a date of
  2020) and a saved model fitted to three days of prices, the two
  images are in the figures directory and draw a forecast over the five days from
  2020-01-01 to 2020-01-05.
\<close>

theorem predict_success_path_witness:
  "plain ''MSFT'' \<and> fs_msft (artifact_path cfg0 ''MSFT'') \<noteq> None
   \<and> 1000 \<le> year (fromordinal (toordinal (TODAY cfg0) + 2))
   \<and> (\<exists>fs' v. predict w0 cfg0 fs_msft ''MSFT'' 2 = Inr (fs', v)
         \<and> (\<exists>m forecast.
               fs' (child (FIG_DIR cfg0) ''MSFT_plot.png'') = Some (Png (Plot m forecast))
             \<and> fs' (child (FIG_DIR cfg0) ''MSFT_plot_components.png'')
                 = Some (Png (Plot_components m forecast))
             \<and> map ds forecast
                 = [Date 2020 1 1, Date 2020 1 2, Date 2020 1 3, Date 2020 1 4, Date 2020 1 5]))"
proof -
  have pl: "plain ''MSFT''" by (simp add: plain_def)
  have a: "fs_msft (artifact_path cfg0 ''MSFT'') = Some (Joblib old_model)"
    by (simp add: artifact_MSFT fs_msft_def)
  then have a': "fs_msft (artifact_path cfg0 ''MSFT'') \<noteq> None" by simp
  have w1: "can_write fs_msft (plot_path cfg0 ''MSFT'')"
    and w2: "can_write fs_msft (components_path cfg0 ''MSFT'')"
    by (simp_all add: can_write_def plot_MSFT components_MSFT fs_msft_def fs0_def parent_def)
  have "\<exists>fs' v. predict w0 cfg0 fs_msft ''MSFT'' 2 = Inr (fs', v)"
    using predict_succeeds [where fs = fs_msft and w = w0, OF a _ _ _ w1 w2, of 2]
    by (simp add: today_cfg0)
  then obtain fs' v where p: "predict w0 cfg0 fs_msft ''MSFT'' 2 = Inr (fs', v)" by blast
  have yr: "1000 \<le> year (fromordinal (toordinal (TODAY cfg0) + 2))"
    by (rule year_fromordinal) (simp add: today_cfg0)
  from predict_success_path [where fs = fs_msft, OF pl a' p yr] obtain m grid forecast
    where g: "grid = map fromordinal [toordinal (Date 2020 1 1) .. toordinal (TODAY cfg0) + 2]"
      and d: "map ds forecast = grid"
      and p1: "plot_path cfg0 ''MSFT'' = child (FIG_DIR cfg0) (''MSFT'' @ ''_plot.png'')"
      and p2: "components_path cfg0 ''MSFT''
          = child (FIG_DIR cfg0) (''MSFT'' @ ''_plot_components.png'')"
      and f1: "fs' (plot_path cfg0 ''MSFT'') = Some (Png (Plot m forecast))"
      and f2: "fs' (components_path cfg0 ''MSFT'') = Some (Png (Plot_components m forecast))"
    by blast
  have "[toordinal (Date 2020 1 1) .. toordinal (TODAY cfg0) + 2] = [737425 .. 737429]"
    by (simp only: toordinal_values today_cfg0) simp
  then have "grid = [Date 2020 1 1, Date 2020 1 2, Date 2020 1 3, Date 2020 1 4, Date 2020 1 5]"
    unfolding g by (simp add: upto.simps date_eval Let_def)
  with d have "map ds forecast
      = [Date 2020 1 1, Date 2020 1 2, Date 2020 1 3, Date 2020 1 4, Date 2020 1 5]"
    by simp
  moreover from f1 p1
  have "fs' (child (FIG_DIR cfg0) ''MSFT_plot.png'') = Some (Png (Plot m forecast))"
    by simp
  moreover from f2 p2
  have "fs' (child (FIG_DIR cfg0) ''MSFT_plot_components.png'')
      = Some (Png (Plot_components m forecast))"
    by simp
  ultimately show ?thesis using pl a' yr p by (intro conjI exI) assumption+
qed

section \<open>Verification: the entry point\<close>

text \<open>
  Claim C7. The entry point has no condition of its own: a run returns normally exactly
  when \<open>train\<close> on the given ticker, then \<open>predict\<close> on the state \<open>train\<close> left, then
  \<open>convert\<close> on the value \<open>predict\<close> returned all return normally, and what it prints
  is the mapping \<open>convert\<close> returned; a run ends with an exception exactly when one of
  the three, in that order, raises it (an uncaught exception ends the program, so the later
  steps do not run). \<open>train\<close> is run whatever the disk holds: the mapping printed is
  built from rows predicted by the model fitted to the prices downloaded in this run.
\<close>

theorem main_runs_train_predict_convert_print:
  "(main w cfg fs ticker_opt days_opt = Inr (fs', printed)) =
     (\<exists>fs1 prediction_list output.
         train w cfg fs (case ticker_opt of None \<Rightarrow> ''MSFT'' | Some t \<Rightarrow> t) = Inr fs1
       \<and> predict w cfg fs1 (case ticker_opt of None \<Rightarrow> ''MSFT'' | Some t \<Rightarrow> t)
            (case days_opt of None \<Rightarrow> 7 | Some d \<Rightarrow> d) = Inr (fs', prediction_list)
       \<and> convert prediction_list = Inr output
       \<and> printed = [output])
   \<and> (main w cfg fs ticker_opt days_opt = Inl e) =
     (train w cfg fs (case ticker_opt of None \<Rightarrow> ''MSFT'' | Some t \<Rightarrow> t) = Inl e
      \<or> (\<exists>fs1. train w cfg fs (case ticker_opt of None \<Rightarrow> ''MSFT'' | Some t \<Rightarrow> t) = Inr fs1
            \<and> (predict w cfg fs1 (case ticker_opt of None \<Rightarrow> ''MSFT'' | Some t \<Rightarrow> t)
                  (case days_opt of None \<Rightarrow> 7 | Some d \<Rightarrow> d) = Inl e
               \<or> (\<exists>fs2 prediction_list.
                     predict w cfg fs1 (case ticker_opt of None \<Rightarrow> ''MSFT'' | Some t \<Rightarrow> t)
                       (case days_opt of None \<Rightarrow> 7 | Some d \<Rightarrow> d) = Inr (fs2, prediction_list)
                     \<and> convert prediction_list = Inl e))))
   \<and> (main w cfg fs ticker_opt days_opt = Inr (fs', printed) \<longrightarrow>
        (\<exists>data df forecast.
            yf_download w (case ticker_opt of None \<Rightarrow> ''MSFT'' | Some t \<Rightarrow> t) ''2020-01-01''
              (strftime (TODAY cfg) ''%Y-%m-%d'') = Inr data
          \<and> prepare data = Inr df
          \<and> (\<forall>r\<in>set forecast. r = forecast_row w (Prophet df) (ds r))
          \<and> printed =
              [convert_loop (tail forecast (case days_opt of None \<Rightarrow> 7 | Some d \<Rightarrow> d)) []]))"
proof -
  let ?t = "case ticker_opt of None \<Rightarrow> ''MSFT'' | Some t \<Rightarrow> t"
  let ?d = "case days_opt of None \<Rightarrow> 7 | Some d \<Rightarrow> d"
  have ok: "(main w cfg fs ticker_opt days_opt = Inr (fs', printed)) =
     (\<exists>fs1 prediction_list output.
         train w cfg fs ?t = Inr fs1
       \<and> predict w cfg fs1 ?t ?d = Inr (fs', prediction_list)
       \<and> convert prediction_list = Inr output
       \<and> printed = [output])"
    by (auto simp: main_def Let_def split: sum.splits prod.splits)
  have err: "(main w cfg fs ticker_opt days_opt = Inl e) =
     (train w cfg fs ?t = Inl e
      \<or> (\<exists>fs1. train w cfg fs ?t = Inr fs1
            \<and> (predict w cfg fs1 ?t ?d = Inl e
               \<or> (\<exists>fs2 prediction_list.
                     predict w cfg fs1 ?t ?d = Inr (fs2, prediction_list)
                     \<and> convert prediction_list = Inl e))))"
    by (auto simp: main_def Let_def split: sum.splits prod.splits)
  have fresh: "\<exists>data df forecast.
            yf_download w ?t ''2020-01-01'' (strftime (TODAY cfg) ''%Y-%m-%d'') = Inr data
          \<and> prepare data = Inr df
          \<and> (\<forall>r\<in>set forecast. r = forecast_row w (Prophet df) (ds r))
          \<and> printed = [convert_loop (tail forecast ?d) []]"
    if "main w cfg fs ticker_opt days_opt = Inr (fs', printed)"
  proof -
    from that obtain fs1 prediction_list out
      where t: "train w cfg fs ?t = Inr fs1"
        and p: "predict w cfg fs1 ?t ?d = Inr (fs', prediction_list)"
        and c: "convert prediction_list = Inr out" and pr: "printed = [out]"
      unfolding ok by blast
    from t obtain data df
      where d: "yf_download w ?t ''2020-01-01'' (strftime (TODAY cfg) ''%Y-%m-%d'') = Inr data"
        and q: "prepare data = Inr df"
        and fs1: "fs1 = fs(artifact_path cfg ?t \<mapsto> Joblib (Prophet df))"
      unfolding train_Inr by blast
    have a: "fs1 (artifact_path cfg ?t) = Some (Joblib (Prophet df))"
      by (simp add: fs1)
    from predict_artifact [where fs = fs1, OF a p] obtain dates
      where v: "prediction_list = PyList (tail (map (forecast_row w (Prophet df)) dates) ?d)"
      by blast
    have rows: "\<forall>r\<in>set (map (forecast_row w (Prophet df)) dates).
        r = forecast_row w (Prophet df) (ds r)"
      by (auto simp: forecast_row_def)
    from c v pr have "printed = [convert_loop (tail (map (forecast_row w (Prophet df)) dates) ?d) []]"
      by auto
    with d q rows show ?thesis by blast
  qed
  show ?thesis
    using ok err fresh by blast
qed

text \<open>
  The witness of C7: with no option given (ticker \<open>MSFT\<close>, seven days), on a disk that
  already holds an older model for \<open>MSFT\<close>, the run prints the seven-day mapping of the
  newly fitted model.
\<close>

theorem main_runs_train_predict_convert_print_witness:
  "\<exists>fs'. main w0 cfg0 fs_msft None None =
     Inr (fs', [[(''01/04/2020'', 6), (''01/05/2020'', 7), (''01/06/2020'', 8),
                 (''01/07/2020'', 9), (''01/08/2020'', 10), (''01/09/2020'', 11),
                 (''01/10/2020'', 12)]])"
proof -
  let ?fs1 = "fs_msft(artifact_path cfg0 ''MSFT'' \<mapsto> Joblib new_model)"
  let ?recs = "map (forecast_row w0 new_model)
        [Date 2020 1 4, Date 2020 1 5, Date 2020 1 6, Date 2020 1 7, Date 2020 1 8,
         Date 2020 1 9, Date 2020 1 10]"
  let ?out = "[(''01/04/2020'', 6), (''01/05/2020'', 7), (''01/06/2020'', 8),
                 (''01/07/2020'', 9), (''01/08/2020'', 10), (''01/09/2020'', 11),
                 (''01/10/2020'', 12::real)]"
  have "can_write fs_msft (artifact_path cfg0 ''MSFT'')"
    by (simp add: can_write_def artifact_MSFT fs_msft_def fs0_def parent_def)
  then have t: "train w0 cfg0 fs_msft ''MSFT'' = Inr ?fs1"
    by (rule train_w0)
  have "\<exists>fs'. predict w0 cfg0 ?fs1 ''MSFT'' 7 = Inr (fs', PyList ?recs)"
    by (rule predict_w0_7)
      (simp_all add: can_write_def artifact_MSFT plot_MSFT components_MSFT fs_msft_def fs0_def
         parent_def)
  then obtain fs' where p: "predict w0 cfg0 ?fs1 ''MSFT'' 7 = Inr (fs', PyList ?recs)"
    by blast
  have c: "convert (PyList ?recs) = Inr ?out"
    by (simp add: forecast_row_def w0_def new_model_def date_key_def text_eval)
  have "main w0 cfg0 fs_msft None None = Inr (fs', [?out])"
    using t p c
      main_runs_train_predict_convert_print
        [of w0 cfg0 fs_msft None None fs' "[?out]" OverflowError]
    by auto
  then show ?thesis by blast
qed

end
